theory Spec2Isabelle
  imports Main
begin

section \<open>Library routines the program calls\<close>

text \<open>
  The program is two Go files: \<^verbatim>\<open>cmd/server/main.go\<close> (flags, environment, listener) and
  \<^verbatim>\<open>internal/web/handler.go\<close> (the media handler). Both lean on Go's standard library.
  The pure string routines are written out below after the library's Unix implementation;
  the parts that depend on the machine (the file system, the MIME table, the date codec)
  are parameters.

  Go strings are byte sequences, modelled as \<^typ>\<open>string\<close>.
\<close>

subsection \<open>strings.HasPrefix, strings.TrimPrefix, strings.Join\<close>

definition HasPrefix :: "string \<Rightarrow> string \<Rightarrow> bool" where
  "HasPrefix s pre = (length pre \<le> length s \<and> take (length pre) s = pre)"

definition TrimPrefix :: "string \<Rightarrow> string \<Rightarrow> string" where
  "TrimPrefix s pre = (if HasPrefix s pre then drop (length pre) s else s)"

fun strings_Join :: "string list \<Rightarrow> string \<Rightarrow> string" where
  "strings_Join [] sep = []"
| "strings_Join [e] sep = e"
| "strings_Join (e # es) sep = e @ sep @ strings_Join es sep"

subsection \<open>path/filepath on Unix: Clean, Join, Ext, IsAbs\<close>

text \<open>
  \<^verbatim>\<open>Clean\<close> reads the path left to right and writes into a buffer; \<^verbatim>\<open>dotdot\<close> is the
  index in the buffer below which a \<^verbatim>\<open>..\<close> element may not remove anything. The buffer is
  the string \<open>out\<close>, its write index \<^verbatim>\<open>out.w\<close> is \<open>length out\<close>.

  \<open>backtrack\<close> is the inner loop of the \<^verbatim>\<open>..\<close> case, after the first \<^verbatim>\<open>out.w--\<close>:
  \<^verbatim>\<open>for out.w > dotdot && !os.IsPathSeparator(out.index(out.w)) { out.w-- }\<close>.
\<close>

fun backtrack :: "string \<Rightarrow> nat \<Rightarrow> nat \<Rightarrow> nat" where
  "backtrack buf dotdot 0 = 0"
| "backtrack buf dotdot (Suc w) =
     (if dotdot < Suc w
      then (if buf ! Suc w = CHR ''/'' then Suc w else backtrack buf dotdot w)
      else Suc w)"

function clean_loop :: "bool \<Rightarrow> string \<Rightarrow> string \<Rightarrow> nat \<Rightarrow> string" where
  "clean_loop rooted [] out dotdot = out"
| "clean_loop rooted (c # rest) out dotdot =
     (if c = CHR ''/'' then clean_loop rooted rest out dotdot
      else if c = CHR ''.'' \<and> (case rest of [] \<Rightarrow> True | d # _ \<Rightarrow> d = CHR ''/'')
        then clean_loop rooted rest out dotdot
      else if c = CHR ''.'' \<and>
              (case rest of
                 [] \<Rightarrow> False
               | d # rest' \<Rightarrow> d = CHR ''.'' \<and> (case rest' of [] \<Rightarrow> True | e # _ \<Rightarrow> e = CHR ''/''))
        then
          (if dotdot < length out
             then clean_loop rooted (tl rest)
                    (take (backtrack out dotdot (length out - 1)) out) dotdot
           else if rooted then clean_loop rooted (tl rest) out dotdot
           else
             (let out' = (if 0 < length out then out @ ''/'' else out) @ ''..''
              in clean_loop rooted (tl rest) out' (length out')))
      else
        (let out' = (if rooted then (if length out = 1 then out else out @ ''/'')
                     else (if length out = 0 then out else out @ ''/''))
         in clean_loop rooted (dropWhile (\<lambda>x. x \<noteq> CHR ''/'') rest)
              (out' @ c # takeWhile (\<lambda>x. x \<noteq> CHR ''/'') rest) dotdot))"
  by pat_completeness auto
termination
proof (relation "measure (\<lambda>(rooted, path, out, dotdot). length path)")
  show "wf (measure (\<lambda>(rooted, path, out, dotdot). length path))"
    by simp
qed (auto simp: less_Suc_eq_le length_dropWhile_le intro: le_trans [OF diff_le_self])

definition Clean :: "string \<Rightarrow> string" where
  "Clean path =
     (case path of
        [] \<Rightarrow> ''.''
      | c # rest \<Rightarrow>
          (let rooted = (c = CHR ''/'');
               out = (if rooted then clean_loop True rest ''/'' 1
                      else clean_loop False path [] 0)
           in if out = [] then ''.'' else out))"

text \<open>
  \<^verbatim>\<open>Join\<close> drops leading empty elements, joins the rest with the separator and cleans
  the result; with no non-empty element it returns the empty string.
\<close>

fun Join :: "string list \<Rightarrow> string" where
  "Join [] = []"
| "Join (e # es) = (if e \<noteq> [] then Clean (strings_Join (e # es) ''/'') else Join es)"

text \<open>
  \<^verbatim>\<open>Ext\<close> scans from the end of the path towards its start and stops at the first
  separator: \<^verbatim>\<open>for i := len(path) - 1; i >= 0 && !os.IsPathSeparator(path[i]); i--\<close>.
  The second argument of \<open>Ext_loop\<close> is \<open>i + 1\<close>.
\<close>

fun Ext_loop :: "string \<Rightarrow> nat \<Rightarrow> string" where
  "Ext_loop path 0 = []"
| "Ext_loop path (Suc i) =
     (if path ! i = CHR ''/'' then []
      else if path ! i = CHR ''.'' then drop i path
      else Ext_loop path i)"

definition Ext :: "string \<Rightarrow> string" where
  "Ext path = Ext_loop path (length path)"

definition IsAbs :: "string \<Rightarrow> bool" where
  "IsAbs path = HasPrefix path ''/''"

subsection \<open>strconv and net/textproto\<close>

text \<open>
  \<^verbatim>\<open>strconv.ParseInt(s, 10, 64)\<close>: an optional sign, then decimal digits only; the empty
  string, any other byte and a value outside the signed 64-bit range are errors
  (\<open>None\<close>). \<^verbatim>\<open>strconv.FormatInt(i, 10)\<close> and the verb \<^verbatim>\<open>%d\<close> print the decimal digits.
\<close>

fun ParseUint_loop :: "string \<Rightarrow> int \<Rightarrow> int option" where
  "ParseUint_loop [] n = Some n"
| "ParseUint_loop (c # cs) n =
     (if 48 \<le> (of_char c :: int) \<and> (of_char c :: int) \<le> 57
      then ParseUint_loop cs (n * 10 + (of_char c - 48))
      else None)"

definition ParseInt :: "string \<Rightarrow> int option" where
  "ParseInt s =
     (case s of
        [] \<Rightarrow> None
      | c # cs \<Rightarrow>
          (let neg = (c = CHR ''-'');
               ds = (if c = CHR ''+'' then cs else if c = CHR ''-'' then cs else s)
           in if ds = [] then None
              else
                (case ParseUint_loop ds 0 of
                   None \<Rightarrow> None
                 | Some un \<Rightarrow>
                     (if neg then (if 2 ^ 63 < un then None else Some (- un))
                      else (if 2 ^ 63 \<le> un then None else Some un)))))"

function FormatUint :: "nat \<Rightarrow> string" where
  "FormatUint n =
     (if n < 10 then [''0123456789'' ! n]
      else FormatUint (n div 10) @ [''0123456789'' ! (n mod 10)])"
  by pat_completeness auto
termination
  by (relation "measure (\<lambda>n. n)") auto

declare FormatUint.simps [simp del]

definition FormatInt :: "int \<Rightarrow> string" where
  "FormatInt i = (if i < 0 then CHR ''-'' # FormatUint (nat (- i)) else FormatUint (nat i))"

text \<open>
  \<^verbatim>\<open>textproto.TrimString\<close> removes leading and trailing ASCII space, tab, line feed and
  carriage return. \<^verbatim>\<open>strings.Split(s, ",")\<close> and \<^verbatim>\<open>strings.Cut(s, "-")\<close> are used with a
  one-byte separator only.
\<close>

definition isASCIISpace :: "char \<Rightarrow> bool" where
  "isASCIISpace b = (b = CHR '' '' \<or> b = CHR 0x09 \<or> b = CHR 0x0A \<or> b = CHR 0x0D)"

definition TrimString :: "string \<Rightarrow> string" where
  "TrimString s = rev (dropWhile isASCIISpace (rev (dropWhile isASCIISpace s)))"

fun Split :: "string \<Rightarrow> char \<Rightarrow> string list" where
  "Split [] sep = [[]]"
| "Split (c # cs) sep =
     (if c = sep then [] # Split cs sep
      else (case Split cs sep of [] \<Rightarrow> [[c]] | x # xs \<Rightarrow> (c # x) # xs))"

definition Cut :: "string \<Rightarrow> char \<Rightarrow> (string \<times> string) option" where
  "Cut s sep =
     (if sep \<in> set s
      then Some (takeWhile (\<lambda>c. c \<noteq> sep) s, tl (dropWhile (\<lambda>c. c \<noteq> sep) s))
      else None)"

section \<open>net/http: requests, responses, content serving\<close>

subsection \<open>Time, headers, request, response\<close>

text \<open>
  A \<^verbatim>\<open>time.Time\<close> is an instant: seconds since the Unix epoch and the nanoseconds within
  the second. Go's zero time is 1 January of year 1, 00:00:00 UTC.
\<close>

datatype Time = Time (Unix: int) (Nanosecond: nat)

definition IsZero :: "Time \<Rightarrow> bool" where
  "IsZero t = (Unix t = - 62135596800 \<and> Nanosecond t = 0)"

definition unixEpochTime :: Time where
  "unixEpochTime = Time 0 0"

definition isZeroTime :: "Time \<Rightarrow> bool" where
  "isZeroTime t = (IsZero t \<or> t = unixEpochTime)"

definition Truncate_Second :: "Time \<Rightarrow> Time" where
  "Truncate_Second t = Time (Unix t) 0"

text \<open>\<^verbatim>\<open>a.Compare(b) <= 0\<close>: the instant \<open>a\<close> is not after \<open>b\<close>.\<close>

definition Compare_le :: "Time \<Rightarrow> Time \<Rightarrow> bool" where
  "Compare_le a b =
     (if Unix a = Unix b then Nanosecond a \<le> Nanosecond b else Unix a < Unix b)"

text \<open>
  A header maps a canonical key to its first value; \<^verbatim>\<open>Get\<close> reads a missing key as the
  empty string.
\<close>

type_synonym Header = "string \<rightharpoonup> string"

definition Header_Get :: "Header \<Rightarrow> string \<Rightarrow> string" where
  "Header_Get h k = (case h k of None \<Rightarrow> [] | Some v \<Rightarrow> v)"

record Request =
  Method :: string
  URL_Path :: string
  Header :: Header

text \<open>
  The response writer records what the handler sends, as \<^verbatim>\<open>httptest.ResponseRecorder\<close>
  does: the status code (200 until one is written), the header map and the body.
  \<^verbatim>\<open>WriteHeader\<close> has an effect only the first time; \<^verbatim>\<open>Write\<close> sends status 200 first when
  no status has been written.
\<close>

record ResponseWriter =
  Code :: nat
  HeaderMap :: Header
  Body :: string
  wroteHeader :: bool

definition NewRecorder :: ResponseWriter where
  "NewRecorder = \<lparr>Code = 200, HeaderMap = Map.empty, Body = [], wroteHeader = False\<rparr>"

definition Header_Set :: "ResponseWriter \<Rightarrow> string \<Rightarrow> string \<Rightarrow> ResponseWriter" where
  "Header_Set w k v = w\<lparr>HeaderMap := (HeaderMap w)(k \<mapsto> v)\<rparr>"

definition Header_Del :: "ResponseWriter \<Rightarrow> string \<Rightarrow> ResponseWriter" where
  "Header_Del w k = w\<lparr>HeaderMap := (HeaderMap w)(k := None)\<rparr>"

definition WriteHeader :: "ResponseWriter \<Rightarrow> nat \<Rightarrow> ResponseWriter" where
  "WriteHeader w code = (if wroteHeader w then w else w\<lparr>Code := code, wroteHeader := True\<rparr>)"

definition Write :: "ResponseWriter \<Rightarrow> string \<Rightarrow> ResponseWriter" where
  "Write w buf = (let w' = WriteHeader w 200 in w'\<lparr>Body := Body w' @ buf\<rparr>)"

text \<open>
  \<^verbatim>\<open>http.Error\<close> replies with a plain-text message and a status; \<^verbatim>\<open>http.NotFound\<close> is
  \<^verbatim>\<open>Error(w, "404 page not found", StatusNotFound)\<close>. The message is written with
  \<^verbatim>\<open>fmt.Fprintln\<close>, so a line feed follows it.
\<close>

definition Error :: "ResponseWriter \<Rightarrow> string \<Rightarrow> nat \<Rightarrow> ResponseWriter" where
  "Error w msg code =
     (let w1 = Header_Del w ''Content-Length'';
          w2 = Header_Set w1 ''Content-Type'' ''text/plain; charset=utf-8'';
          w3 = Header_Set w2 ''X-Content-Type-Options'' ''nosniff'';
          w4 = WriteHeader w3 code
      in Write w4 (msg @ [CHR 0x0A]))"

definition NotFound :: "ResponseWriter \<Rightarrow> Request \<Rightarrow> ResponseWriter" where
  "NotFound w r = Error w ''404 page not found'' 404"

subsection \<open>What the machine supplies\<close>

text \<open>
  Four library routines depend on tables and data outside the program, and one value is
  random; they are parameters of the model:
  \<^item> \<^verbatim>\<open>mime.TypeByExtension\<close>, the extension-to-type table (built in, extended from the
    system's MIME files); the empty string stands for "not found";
  \<^item> \<^verbatim>\<open>http.DetectContentType\<close>, content sniffing;
  \<^item> \<^verbatim>\<open>http.ParseTime\<close>, the parser of HTTP dates (\<open>None\<close> is a parse error);
  \<^item> \<open>FormatTime\<close>, which stands for \<^verbatim>\<open>t.UTC().Format(http.TimeFormat)\<close>;
  \<^item> \<open>Boundary\<close>, the random boundary of a multipart writer.
\<close>

record platform =
  TypeByExtension :: "string \<Rightarrow> string"
  DetectContentType :: "string \<Rightarrow> string"
  ParseTime :: "string \<Rightarrow> Time option"
  FormatTime :: "Time \<Rightarrow> string"
  Boundary :: string

subsection \<open>Entity tags\<close>

text \<open>
  \<^verbatim>\<open>scanETag\<close> reads one entity tag, \<^verbatim>\<open>W/"text"\<close> or \<^verbatim>\<open>"text"\<close>, from the front of a string
  and returns it with the remainder; both are empty when there is none. The loop's first
  argument is the part of the string already accepted.
\<close>

fun scanETag_loop :: "string \<Rightarrow> string \<Rightarrow> string \<times> string" where
  "scanETag_loop acc [] = ([], [])"
| "scanETag_loop acc (c # cs) =
     (if (of_char c :: nat) = 0x21 then scanETag_loop (acc @ [c]) cs
      else if 0x23 \<le> (of_char c :: nat) \<and> (of_char c :: nat) \<le> 0x7E
        then scanETag_loop (acc @ [c]) cs
      else if 0x80 \<le> (of_char c :: nat) then scanETag_loop (acc @ [c]) cs
      else if c = CHR 0x22 then (acc @ [c], cs)
      else ([], []))"

definition scanETag :: "string \<Rightarrow> string \<times> string" where
  "scanETag s0 =
     (let s = TrimString s0;
          start = (if HasPrefix s ''W/'' then 2 else 0 :: nat)
      in if length (drop start s) < 2 then ([], [])
         else if s ! start = CHR 0x22
           then scanETag_loop (take (Suc start) s) (drop (Suc start) s)
         else ([], []))"

definition etagStrongMatch :: "string \<Rightarrow> string \<Rightarrow> bool" where
  "etagStrongMatch a b = (a = b \<and> a \<noteq> [] \<and> hd a = CHR 0x22)"

definition etagWeakMatch :: "string \<Rightarrow> string \<Rightarrow> bool" where
  "etagWeakMatch a b = (TrimPrefix a ''W/'' = TrimPrefix b ''W/'')"

subsection \<open>Preconditions of a conditional request\<close>

datatype condResult = condNone | condTrue | condFalse

text \<open>
  The loops of \<^verbatim>\<open>checkIfMatch\<close> and \<^verbatim>\<open>checkIfNoneMatch\<close> walk through a comma-separated
  list of entity tags; \<open>etag\<close> is the response's own \<^verbatim>\<open>Etag\<close> header.
\<close>

function checkIfMatch_loop :: "string \<Rightarrow> string \<Rightarrow> condResult" where
  "checkIfMatch_loop etag im0 =
     (case TrimString im0 of
        [] \<Rightarrow> condFalse
      | c # rest \<Rightarrow>
          (if c = CHR '','' then checkIfMatch_loop etag rest
           else if c = CHR ''*'' then condTrue
           else if fst (scanETag (c # rest)) = [] then condFalse
           else if etagStrongMatch (fst (scanETag (c # rest))) etag then condTrue
           else checkIfMatch_loop etag (snd (scanETag (c # rest)))))"
  by pat_completeness auto
termination
proof (relation "measure (\<lambda>(etag, im). length im)")
  show "wf (measure (\<lambda>(etag, im :: string). length im))"
    by simp
next
  fix etag im0 :: string and c rest
  assume "TrimString im0 = c # rest"
  then have "length (c # rest) \<le> length im0"
    by (metis TrimString_def length_dropWhile_le length_rev le_trans)
  then show "((etag, rest), (etag, im0)) \<in> measure (\<lambda>(etag, im). length im)"
    by simp
next
  fix etag im0 :: string and c rest
  assume trim: "TrimString im0 = c # rest"
    and tag: "fst (scanETag (c # rest)) \<noteq> []"
  have loop: "length (snd (scanETag_loop acc cs)) \<le> length cs" for acc cs
    by (induction acc cs rule: scanETag_loop.induct) auto
  have trim_le: "length (TrimString s) \<le> length s" for s
    by (metis TrimString_def length_dropWhile_le length_rev le_trans)
  have "length (snd (scanETag s)) < length s" if "fst (scanETag s) \<noteq> []" for s
  proof -
    let ?t = "TrimString s"
    let ?k = "if HasPrefix ?t ''W/'' then 2 else 0 :: nat"
    from that have long: "\<not> length (drop ?k ?t) < 2" and
        eq: "scanETag s = scanETag_loop (take (Suc ?k) ?t) (drop (Suc ?k) ?t)"
      by (auto simp: scanETag_def Let_def split: if_splits)
    have "length (snd (scanETag s)) \<le> length (drop (Suc ?k) ?t)"
      unfolding eq by (rule loop)
    also have "\<dots> < length ?t"
      using long by auto
    also have "\<dots> \<le> length s"
      by (rule trim_le)
    finally show ?thesis .
  qed
  from this [OF tag] have "length (snd (scanETag (c # rest))) < length (c # rest)" .
  also have "\<dots> \<le> length im0"
    using trim_le [of im0] trim by simp
  finally show "((etag, snd (scanETag (c # rest))), (etag, im0)) \<in> measure (\<lambda>(etag, im). length im)"
    by simp
qed

declare checkIfMatch_loop.simps [simp del]

function checkIfNoneMatch_loop :: "string \<Rightarrow> string \<Rightarrow> condResult" where
  "checkIfNoneMatch_loop etag buf0 =
     (case TrimString buf0 of
        [] \<Rightarrow> condTrue
      | c # rest \<Rightarrow>
          (if c = CHR '','' then checkIfNoneMatch_loop etag rest
           else if c = CHR ''*'' then condFalse
           else if fst (scanETag (c # rest)) = [] then condTrue
           else if etagWeakMatch (fst (scanETag (c # rest))) etag then condFalse
           else checkIfNoneMatch_loop etag (snd (scanETag (c # rest)))))"
  by pat_completeness auto
termination
proof (relation "measure (\<lambda>(etag, buf). length buf)")
  show "wf (measure (\<lambda>(etag, buf :: string). length buf))"
    by simp
next
  fix etag buf0 :: string and c rest
  assume "TrimString buf0 = c # rest"
  then have "length (c # rest) \<le> length buf0"
    by (metis TrimString_def length_dropWhile_le length_rev le_trans)
  then show "((etag, rest), (etag, buf0)) \<in> measure (\<lambda>(etag, buf). length buf)"
    by simp
next
  fix etag buf0 :: string and c rest
  assume trim: "TrimString buf0 = c # rest"
    and tag: "fst (scanETag (c # rest)) \<noteq> []"
  have loop: "length (snd (scanETag_loop acc cs)) \<le> length cs" for acc cs
    by (induction acc cs rule: scanETag_loop.induct) auto
  have trim_le: "length (TrimString s) \<le> length s" for s
    by (metis TrimString_def length_dropWhile_le length_rev le_trans)
  have "length (snd (scanETag s)) < length s" if "fst (scanETag s) \<noteq> []" for s
  proof -
    let ?t = "TrimString s"
    let ?k = "if HasPrefix ?t ''W/'' then 2 else 0 :: nat"
    from that have long: "\<not> length (drop ?k ?t) < 2" and
        eq: "scanETag s = scanETag_loop (take (Suc ?k) ?t) (drop (Suc ?k) ?t)"
      by (auto simp: scanETag_def Let_def split: if_splits)
    have "length (snd (scanETag s)) \<le> length (drop (Suc ?k) ?t)"
      unfolding eq by (rule loop)
    also have "\<dots> < length ?t"
      using long by auto
    also have "\<dots> \<le> length s"
      by (rule trim_le)
    finally show ?thesis .
  qed
  from this [OF tag] have "length (snd (scanETag (c # rest))) < length (c # rest)" .
  also have "\<dots> \<le> length buf0"
    using trim_le [of buf0] trim by simp
  finally show "((etag, snd (scanETag (c # rest))), (etag, buf0)) \<in> measure (\<lambda>(etag, buf). length buf)"
    by simp
qed

declare checkIfNoneMatch_loop.simps [simp del]

definition checkIfMatch :: "ResponseWriter \<Rightarrow> Request \<Rightarrow> condResult" where
  "checkIfMatch w r =
     (let im = Header_Get (Header r) ''If-Match''
      in if im = [] then condNone
         else checkIfMatch_loop (Header_Get (HeaderMap w) ''Etag'') im)"

definition checkIfUnmodifiedSince :: "platform \<Rightarrow> Request \<Rightarrow> Time \<Rightarrow> condResult" where
  "checkIfUnmodifiedSince pf r modtime =
     (let ius = Header_Get (Header r) ''If-Unmodified-Since''
      in if ius = [] then condNone
         else if isZeroTime modtime then condNone
         else
           (case ParseTime pf ius of
              None \<Rightarrow> condNone
            | Some t \<Rightarrow>
                (if Compare_le (Truncate_Second modtime) t then condTrue else condFalse)))"

definition checkIfNoneMatch :: "ResponseWriter \<Rightarrow> Request \<Rightarrow> condResult" where
  "checkIfNoneMatch w r =
     (let inm = Header_Get (Header r) ''If-None-Match''
      in if inm = [] then condNone
         else checkIfNoneMatch_loop (Header_Get (HeaderMap w) ''Etag'') inm)"

definition is_GET_or_HEAD :: "Request \<Rightarrow> bool" where
  "is_GET_or_HEAD r = (Method r = ''GET'' \<or> Method r = ''HEAD'')"

definition checkIfModifiedSince :: "platform \<Rightarrow> Request \<Rightarrow> Time \<Rightarrow> condResult" where
  "checkIfModifiedSince pf r modtime =
     (if is_GET_or_HEAD r then
        (let ims = Header_Get (Header r) ''If-Modified-Since''
         in if ims = [] then condNone
            else if isZeroTime modtime then condNone
            else
              (case ParseTime pf ims of
                 None \<Rightarrow> condNone
               | Some t \<Rightarrow>
                   (if Compare_le (Truncate_Second modtime) t then condFalse else condTrue)))
      else condNone)"

definition checkIfRange :: "platform \<Rightarrow> ResponseWriter \<Rightarrow> Request \<Rightarrow> Time \<Rightarrow> condResult" where
  "checkIfRange pf w r modtime =
     (if is_GET_or_HEAD r then
        (let ir = Header_Get (Header r) ''If-Range''
         in if ir = [] then condNone
            else if fst (scanETag ir) \<noteq> [] then
              (if etagStrongMatch (fst (scanETag ir)) (Header_Get (HeaderMap w) ''Etag'')
               then condTrue else condFalse)
            else if IsZero modtime then condFalse
            else
              (case ParseTime pf ir of
                 None \<Rightarrow> condFalse
               | Some t \<Rightarrow> (if Unix t = Unix modtime then condTrue else condFalse)))
      else condNone)"

definition setLastModified :: "platform \<Rightarrow> ResponseWriter \<Rightarrow> Time \<Rightarrow> ResponseWriter" where
  "setLastModified pf w modtime =
     (if isZeroTime modtime then w else Header_Set w ''Last-Modified'' (FormatTime pf modtime))"

definition writeNotModified :: "ResponseWriter \<Rightarrow> ResponseWriter" where
  "writeNotModified w =
     (let w1 = Header_Del w ''Content-Type'';
          w2 = Header_Del w1 ''Content-Length'';
          w3 = Header_Del w2 ''Content-Encoding'';
          w4 = (if Header_Get (HeaderMap w3) ''Etag'' \<noteq> [] then Header_Del w3 ''Last-Modified''
                else w3)
      in WriteHeader w4 304)"

text \<open>
  \<^verbatim>\<open>checkPreconditions\<close> returns the writer, whether the reply is finished
  (\<^verbatim>\<open>done\<close>), and the \<^verbatim>\<open>Range\<close> header still to be honoured.
\<close>

definition checkPreconditions ::
    "platform \<Rightarrow> ResponseWriter \<Rightarrow> Request \<Rightarrow> Time \<Rightarrow> ResponseWriter \<times> bool \<times> string" where
  "checkPreconditions pf w r modtime =
     (let ch0 = checkIfMatch w r;
          ch = (if ch0 = condNone then checkIfUnmodifiedSince pf r modtime else ch0)
      in if ch = condFalse then (WriteHeader w 412, True, [])
         else
           (case checkIfNoneMatch w r of
              condFalse \<Rightarrow>
                (if is_GET_or_HEAD r then (writeNotModified w, True, [])
                 else (WriteHeader w 412, True, []))
            | condNone \<Rightarrow>
                (if checkIfModifiedSince pf r modtime = condFalse
                 then (writeNotModified w, True, [])
                 else
                   (let rangeHeader = Header_Get (Header r) ''Range''
                    in if rangeHeader \<noteq> [] \<and> checkIfRange pf w r modtime = condFalse
                       then (w, False, [])
                       else (w, False, rangeHeader)))
            | condTrue \<Rightarrow>
                (let rangeHeader = Header_Get (Header r) ''Range''
                 in if rangeHeader \<noteq> [] \<and> checkIfRange pf w r modtime = condFalse
                    then (w, False, [])
                    else (w, False, rangeHeader))))"

subsection \<open>Byte ranges\<close>

record httpRange =
  start :: int
  length_r :: int

datatype rangeError = errInvalidRange | errNoOverlap

definition contentRange :: "httpRange \<Rightarrow> int \<Rightarrow> string" where
  "contentRange ra sz =
     ''bytes '' @ FormatInt (start ra) @ ''-'' @ FormatInt (start ra + length_r ra - 1)
       @ ''/'' @ FormatInt sz"

text \<open>
  \<^verbatim>\<open>parseRange\<close> loops over the comma-separated range specifications. \<open>parseRange_spec\<close>
  is the body of that loop for one specification: it is skipped (\<^verbatim>\<open>continue\<close> on an empty
  one), lies beyond the content (\<^verbatim>\<open>noOverlap = true; continue\<close>), yields a range, or is
  invalid. \<open>parseRange_loop\<close> carries the ranges collected so far and the flag
  \<^verbatim>\<open>noOverlap\<close>.
\<close>

datatype specResult = spec_empty | spec_noOverlap | spec_range httpRange

definition parseRange_spec :: "string \<Rightarrow> int \<Rightarrow> rangeError + specResult" where
  "parseRange_spec ra0 sz =
     (let ra = TrimString ra0
      in if ra = [] then Inr spec_empty
         else
           (case Cut ra CHR ''-'' of
              None \<Rightarrow> Inl errInvalidRange
            | Some (start0, end0) \<Rightarrow>
                (let startS = TrimString start0; endS = TrimString end0
                 in if startS = [] then
                      (if endS = [] then Inl errInvalidRange
                       else if hd endS = CHR ''-'' then Inl errInvalidRange
                       else
                         (case ParseInt endS of
                            None \<Rightarrow> Inl errInvalidRange
                          | Some i \<Rightarrow>
                              (if i < 0 then Inl errInvalidRange
                               else
                                 (let i' = (if sz < i then sz else i)
                                  in Inr (spec_range
                                       \<lparr>start = sz - i', length_r = sz - (sz - i')\<rparr>)))))
                    else
                      (case ParseInt startS of
                         None \<Rightarrow> Inl errInvalidRange
                       | Some i \<Rightarrow>
                           (if i < 0 then Inl errInvalidRange
                            else if sz \<le> i then Inr spec_noOverlap
                            else if endS = [] then
                              Inr (spec_range \<lparr>start = i, length_r = sz - i\<rparr>)
                            else
                              (case ParseInt endS of
                                 None \<Rightarrow> Inl errInvalidRange
                               | Some j \<Rightarrow>
                                   (if j < i then Inl errInvalidRange
                                    else
                                      (let j' = (if sz \<le> j then sz - 1 else j)
                                       in Inr (spec_range
                                            \<lparr>start = i, length_r = j' - i + 1\<rparr>)))))))))"

fun parseRange_loop ::
    "string list \<Rightarrow> int \<Rightarrow> httpRange list \<Rightarrow> bool \<Rightarrow> rangeError + httpRange list \<times> bool" where
  "parseRange_loop [] sz ranges noOverlap = Inr (ranges, noOverlap)"
| "parseRange_loop (ra # ras) sz ranges noOverlap =
     (case parseRange_spec ra sz of
        Inl e \<Rightarrow> Inl e
      | Inr spec_empty \<Rightarrow> parseRange_loop ras sz ranges noOverlap
      | Inr spec_noOverlap \<Rightarrow> parseRange_loop ras sz ranges True
      | Inr (spec_range r) \<Rightarrow> parseRange_loop ras sz (ranges @ [r]) noOverlap)"

definition parseRange :: "string \<Rightarrow> int \<Rightarrow> rangeError + httpRange list" where
  "parseRange s sz =
     (if s = [] then Inr []
      else if HasPrefix s ''bytes='' then
        (case parseRange_loop (Split (drop (length ''bytes='') s) CHR '','') sz [] False of
           Inl e \<Rightarrow> Inl e
         | Inr (ranges, noOverlap) \<Rightarrow>
             (if noOverlap \<and> ranges = [] then Inl errNoOverlap else Inr ranges))
      else Inl errInvalidRange)"

definition sumRangesSize :: "httpRange list \<Rightarrow> int" where
  "sumRangesSize ranges = sum_list (map length_r ranges)"

definition rangeError_text :: "rangeError \<Rightarrow> string" where
  "rangeError_text e =
     (case e of
        errInvalidRange \<Rightarrow> ''invalid range''
      | errNoOverlap \<Rightarrow> ''invalid range: failed to overlap'')"

subsection \<open>Open files\<close>

text \<open>
  An open file is what \<^verbatim>\<open>os.Open\<close> returns: an \<^verbatim>\<open>io.ReadSeeker\<close> with a modification time.
  \<open>contents\<close> are the bytes that reading from the start delivers until the end of the
  file or a read error; \<open>Seek\<close> answers \<^verbatim>\<open>Seek(offset, whence)\<close> with the new offset or with
  the text of an error. Only \<^verbatim>\<open>io.SeekStart\<close> and \<^verbatim>\<open>io.SeekEnd\<close> are used. After a
  successful \<^verbatim>\<open>Seek(offset, io.SeekStart)\<close>, reading delivers the contents from \<open>offset\<close> on.

  Three kinds of open file, as Linux has them:
  \<^item> a regular file on disk: seeking succeeds, its size is the number of its bytes;
  \<^item> a directory, which \<^verbatim>\<open>os.Open\<close> opens without error: seeking to its end succeeds
    and yields a large offset, every read fails;
  \<^item> a regular file that cannot say its size, such as those under \<^verbatim>\<open>/proc\<close>: reading
    works, seeking to the end fails.
\<close>

datatype whence = SeekStart | SeekEnd

record File =
  contents :: string
  Seek :: "int \<Rightarrow> whence \<Rightarrow> string + int"
  ModTime :: Time

definition regular_file :: "string \<Rightarrow> Time \<Rightarrow> File" where
  "regular_file bytes mtime =
     \<lparr>contents = bytes,
      Seek = (\<lambda>offset wh.
                case wh of
                  SeekStart \<Rightarrow> (if offset < 0 then Inl ''invalid argument'' else Inr offset)
                | SeekEnd \<Rightarrow>
                    (if int (length bytes) + offset < 0 then Inl ''invalid argument''
                     else Inr (int (length bytes) + offset))),
      ModTime = mtime\<rparr>"

definition opened_directory :: "Time \<Rightarrow> File" where
  "opened_directory mtime =
     \<lparr>contents = [],
      Seek = (\<lambda>offset wh.
                case wh of
                  SeekStart \<Rightarrow> (if offset < 0 then Inl ''invalid argument'' else Inr offset)
                | SeekEnd \<Rightarrow> Inr 9223372036854775807),
      ModTime = mtime\<rparr>"

definition unseekable_file :: "string \<Rightarrow> Time \<Rightarrow> File" where
  "unseekable_file bytes mtime =
     \<lparr>contents = bytes,
      Seek = (\<lambda>offset wh.
                case wh of
                  SeekStart \<Rightarrow> (if offset < 0 then Inl ''invalid argument'' else Inr offset)
                | SeekEnd \<Rightarrow> Inl ''invalid argument''),
      ModTime = mtime\<rparr>"

subsection \<open>http.ServeContent\<close>

text \<open>
  The routine is written after \<^verbatim>\<open>net/http/fs.go\<close> as of Go 1.23.
  \<^verbatim>\<open>serveError\<close> drops the headers that were meant for a successful reply and sends the
  error. \<^verbatim>\<open>sizeFunc\<close> is the size function \<^verbatim>\<open>ServeContent\<close> builds: it seeks to the end and
  back to the start, and either seek may fail.
\<close>

definition serveError :: "ResponseWriter \<Rightarrow> string \<Rightarrow> nat \<Rightarrow> ResponseWriter" where
  "serveError w text code =
     (let w1 = Header_Del w ''Cache-Control'';
          w2 = Header_Del w1 ''Content-Encoding'';
          w3 = Header_Del w2 ''Etag'';
          w4 = Header_Del w3 ''Last-Modified''
      in Error w4 text code)"

definition errSeeker :: string where
  "errSeeker = ''seeker can'' @ [CHR 0x27] @ ''t seek''"

definition sizeFunc :: "File \<Rightarrow> string + int" where
  "sizeFunc content =
     (case Seek content 0 SeekEnd of
        Inl err \<Rightarrow> Inl errSeeker
      | Inr sz \<Rightarrow>
          (case Seek content 0 SeekStart of
             Inl err \<Rightarrow> Inl errSeeker
           | Inr pos \<Rightarrow> Inr sz))"

text \<open>
  A request for several ranges is answered with a \<^verbatim>\<open>multipart/byteranges\<close> body: each part
  starts with a boundary line and the headers \<^verbatim>\<open>Content-Range\<close> and \<^verbatim>\<open>Content-Type\<close>, and a
  closing boundary line ends the body. \<^verbatim>\<open>rangesMIMESize\<close> adds up the lengths of these
  lines and of the ranges. The body is written part by part: a seek that fails, or a
  part for which the file delivers fewer bytes than the range has, ends it there.
\<close>

definition CRLF :: string where
  "CRLF = [CHR 0x0D, CHR 0x0A]"

definition part_header :: "string \<Rightarrow> bool \<Rightarrow> httpRange \<Rightarrow> string \<Rightarrow> int \<Rightarrow> string" where
  "part_header boundary first ra ctype sz =
     (if first then [] else CRLF) @ ''--'' @ boundary @ CRLF
       @ ''Content-Range: '' @ contentRange ra sz @ CRLF
       @ ''Content-Type: '' @ ctype @ CRLF
       @ CRLF"

definition closing_boundary :: "string \<Rightarrow> string" where
  "closing_boundary boundary = CRLF @ ''--'' @ boundary @ ''--'' @ CRLF"

fun rangesMIMESize_loop :: "string \<Rightarrow> bool \<Rightarrow> httpRange list \<Rightarrow> string \<Rightarrow> int \<Rightarrow> int" where
  "rangesMIMESize_loop boundary first [] ctype sz = int (length (closing_boundary boundary))"
| "rangesMIMESize_loop boundary first (ra # ras) ctype sz =
     int (length (part_header boundary first ra ctype sz)) + length_r ra
       + rangesMIMESize_loop boundary False ras ctype sz"

definition rangesMIMESize :: "platform \<Rightarrow> httpRange list \<Rightarrow> string \<Rightarrow> int \<Rightarrow> int" where
  "rangesMIMESize pf ranges ctype sz = rangesMIMESize_loop (Boundary pf) True ranges ctype sz"

fun multipart_body ::
    "string \<Rightarrow> bool \<Rightarrow> httpRange list \<Rightarrow> string \<Rightarrow> int \<Rightarrow> File \<Rightarrow> string" where
  "multipart_body boundary first [] ctype sz content = closing_boundary boundary"
| "multipart_body boundary first (ra # ras) ctype sz content =
     part_header boundary first ra ctype sz
       @ (case Seek content (start ra) SeekStart of
            Inl err \<Rightarrow> []
          | Inr pos \<Rightarrow>
              (if int (length (drop (nat (start ra)) (contents content))) < length_r ra
               then drop (nat (start ra)) (contents content)
               else take (nat (length_r ra)) (drop (nat (start ra)) (contents content))
                      @ multipart_body boundary False ras ctype sz content))"

text \<open>
  \<^verbatim>\<open>serveContent\<close> is written in three parts. \<open>serveContent_finish\<close> is its end: it sets
  \<^verbatim>\<open>Accept-Ranges\<close> and \<^verbatim>\<open>Content-Length\<close> (the latter when there are ranges or no
  \<^verbatim>\<open>Content-Encoding\<close>), writes the status and, unless the method is \<^verbatim>\<open>HEAD\<close>, copies
  \<^verbatim>\<open>sendSize\<close> bytes, or as many as there are. \<open>serveContent_send\<close> is the switch on the
  number of ranges before it. \<open>serveContent_ranges\<close> is the part from the call of
  \<^verbatim>\<open>sizeFunc\<close> to the parsing of the \<^verbatim>\<open>Range\<close> header.
\<close>

definition serveContent_finish ::
    "ResponseWriter \<Rightarrow> Request \<Rightarrow> bool \<Rightarrow> nat \<Rightarrow> int \<Rightarrow> string \<Rightarrow> ResponseWriter" where
  "serveContent_finish w r ranged code sendSize sendContent =
     (let w1 = Header_Set w ''Accept-Ranges'' ''bytes'';
          w2 = (if ranged then Header_Set w1 ''Content-Length'' (FormatInt sendSize)
                else if Header_Get (HeaderMap w1) ''Content-Encoding'' = []
                  then Header_Set w1 ''Content-Length'' (FormatInt sendSize)
                else w1);
          w3 = WriteHeader w2 code
      in if Method r = ''HEAD'' then w3 else Write w3 (take (nat sendSize) sendContent))"

definition serveContent_send ::
    "platform \<Rightarrow> ResponseWriter \<Rightarrow> Request \<Rightarrow> string \<Rightarrow> File \<Rightarrow> int \<Rightarrow> httpRange list
      \<Rightarrow> ResponseWriter" where
  "serveContent_send pf w r ctype content sz ranges =
     (case ranges of
        [] \<Rightarrow> serveContent_finish w r False 200 sz (contents content)
      | [ra] \<Rightarrow>
          (case Seek content (start ra) SeekStart of
             Inl err \<Rightarrow> serveError w err 416
           | Inr pos \<Rightarrow>
               serveContent_finish (Header_Set w ''Content-Range'' (contentRange ra sz)) r True
                 206 (length_r ra) (drop (nat (start ra)) (contents content)))
      | _ \<Rightarrow>
          serveContent_finish
            (Header_Set w ''Content-Type'' (''multipart/byteranges; boundary='' @ Boundary pf))
            r True 206 (rangesMIMESize pf ranges ctype sz)
            (multipart_body (Boundary pf) True ranges ctype sz content))"

definition serveContent_ranges ::
    "platform \<Rightarrow> ResponseWriter \<Rightarrow> Request \<Rightarrow> string \<Rightarrow> File \<Rightarrow> string \<Rightarrow> ResponseWriter" where
  "serveContent_ranges pf w r ctype content rangeReq =
     (case sizeFunc content of
        Inl err \<Rightarrow> serveError w err 500
      | Inr sz \<Rightarrow>
          (if sz < 0 then serveError w ''negative content size computed'' 500
           else
             (case parseRange rangeReq sz of
                Inr ranges \<Rightarrow>
                  serveContent_send pf w r ctype content sz
                    (if sz < sumRangesSize ranges then [] else ranges)
              | Inl errNoOverlap \<Rightarrow>
                  (if sz = 0 then serveContent_send pf w r ctype content sz []
                   else serveError
                          (Header_Set w ''Content-Range'' (''bytes */'' @ FormatInt sz))
                          (rangeError_text errNoOverlap) 416)
              | Inl errInvalidRange \<Rightarrow>
                  serveError w (rangeError_text errInvalidRange) 416)))"

definition serveContent ::
    "platform \<Rightarrow> ResponseWriter \<Rightarrow> Request \<Rightarrow> string \<Rightarrow> Time \<Rightarrow> File \<Rightarrow> ResponseWriter" where
  "serveContent pf w r name modtime content =
     (let w1 = setLastModified pf w modtime
      in case checkPreconditions pf w1 r modtime of
           (w2, done, rangeReq) \<Rightarrow>
             (if done then w2
              else
                (case HeaderMap w2 ''Content-Type'' of
                   Some ctype \<Rightarrow> serveContent_ranges pf w2 r ctype content rangeReq
                 | None \<Rightarrow>
                     (if TypeByExtension pf (Ext name) = [] then
                        (case Seek content 0 SeekStart of
                           Inl err \<Rightarrow> serveError w2 errSeeker 500
                         | Inr pos \<Rightarrow>
                             serveContent_ranges pf
                               (Header_Set w2 ''Content-Type''
                                  (DetectContentType pf (take 512 (contents content))))
                               r (DetectContentType pf (take 512 (contents content)))
                               content rangeReq)
                      else
                        serveContent_ranges pf
                          (Header_Set w2 ''Content-Type'' (TypeByExtension pf (Ext name)))
                          r (TypeByExtension pf (Ext name)) content rangeReq))))"

definition ServeContent ::
    "platform \<Rightarrow> ResponseWriter \<Rightarrow> Request \<Rightarrow> string \<Rightarrow> Time \<Rightarrow> File \<Rightarrow> ResponseWriter" where
  "ServeContent pf w req name modtime content = serveContent pf w req name modtime content"

section \<open>The file system and the log\<close>

text \<open>
  The handler reads the file system and never writes it. \<^verbatim>\<open>os.Open\<close> either fails with an
  error or yields an open file, of any of the kinds above; an open that never returns, as
  of a FIFO that no writer has opened, is not a case of the model. The world also keeps
  the trace of what the program did to it: the lines it logged and the paths it opened
  and closed.
\<close>

datatype Errno = ENOENT | EACCES | EISDIR | ENOTDIR | EINVAL | Errno nat

datatype event = ev_log string | ev_open string | ev_close string

record world =
  files :: "string \<Rightarrow> Errno + File"
  events :: "event list"

definition log_Printf :: "world \<Rightarrow> string \<Rightarrow> world" where
  "log_Printf wd msg = wd\<lparr>events := events wd @ [ev_log msg]\<rparr>"

definition os_Open :: "world \<Rightarrow> string \<Rightarrow> (Errno + File) \<times> world" where
  "os_Open wd name = (files wd name, wd\<lparr>events := events wd @ [ev_open name]\<rparr>)"

definition file_Close :: "world \<Rightarrow> string \<Rightarrow> world" where
  "file_Close wd name = wd\<lparr>events := events wd @ [ev_close name]\<rparr>"

section \<open>internal/web/handler.go\<close>

text \<open>
  \<^verbatim>\<open>NewMediaHandler(mediaDir)\<close> returns the handler; the model applies it to the response
  writer, the request and the world at once.

  Two expressions of the source are read by what they name, since the Go compiler accepts
  neither as written: after \<^verbatim>\<open>filepath := filepath.Join(mediaDir, filename)\<close> the identifier
  \<^verbatim>\<open>filepath\<close> is a local string, so \<^verbatim>\<open>filepath.Ext(filename)\<close> is read as the package's
  \<^verbatim>\<open>Ext\<close>; and \<^verbatim>\<open>*os.File\<close> has no method \<^verbatim>\<open>ModTime\<close>, so \<^verbatim>\<open>file.ModTime()\<close> is read as the
  modification time of the opened file.
\<close>

definition NewMediaHandler ::
    "platform \<Rightarrow> string \<Rightarrow> ResponseWriter \<Rightarrow> Request \<Rightarrow> world \<Rightarrow> ResponseWriter \<times> world" where
  "NewMediaHandler pf mediaDir w r wd =
     (let filename = TrimPrefix (URL_Path r) ''/media/'';
          filepath = Join [mediaDir, filename];
          wd1 = log_Printf wd (''Request for file: '' @ filepath)
      in case os_Open wd1 filepath of
           (Inl err, wd2) \<Rightarrow> (NotFound w r, wd2)
         | (Inr file, wd2) \<Rightarrow>
             (let extension = Ext filename;
                  mimeType = TypeByExtension pf extension;
                  mimeType = (if mimeType = [] then ''application/octet-stream'' else mimeType);
                  w1 = Header_Set w ''Content-Type'' mimeType;
                  w2 = ServeContent pf w1 r filename (ModTime file) file
              in (w2, file_Close wd2 filepath)))"

section \<open>cmd/server/main.go\<close>

text \<open>
  The command line is given as the flags it sets (\<^verbatim>\<open>flag.Parse\<close> has accepted it), the
  environment as the variables it holds. \<^verbatim>\<open>flag.String\<close> yields the default when the flag
  is not set; \<^verbatim>\<open>os.Getenv\<close> yields the empty string when the variable is not set.
\<close>

definition flag_String :: "(string \<rightharpoonup> string) \<Rightarrow> string \<Rightarrow> string \<Rightarrow> string" where
  "flag_String args name dflt = (case args name of None \<Rightarrow> dflt | Some v \<Rightarrow> v)"

definition Getenv :: "(string \<rightharpoonup> string) \<Rightarrow> string \<Rightarrow> string" where
  "Getenv env key = (case env key of None \<Rightarrow> [] | Some v \<Rightarrow> v)"

text \<open>
  The first part of \<^verbatim>\<open>main\<close> (lines 14 to 25): the values of \<^verbatim>\<open>*port\<close> and \<^verbatim>\<open>*mediaDir\<close>
  after the overrides, in this order.
\<close>

definition main_config :: "(string \<rightharpoonup> string) \<Rightarrow> (string \<rightharpoonup> string) \<Rightarrow> string \<times> string" where
  "main_config args env =
     (let port0 = flag_String args ''port'' ''8080'';
          mediaDir0 = flag_String args ''mediadir'' ''./media'';
          envPort = Getenv env ''SERVER_PORT'';
          port1 = (if envPort \<noteq> [] then envPort else port0);
          envMediaDir = Getenv env ''MEDIA_DIR'';
          mediaDir1 = (if envMediaDir \<noteq> [] then envMediaDir else mediaDir0)
      in (port1, mediaDir1))"

text \<open>
  \<^verbatim>\<open>filepath.Abs\<close> cleans an absolute path and joins a relative one onto the working
  directory; it fails when the working directory cannot be read (\<open>None\<close>). The rest of
  \<^verbatim>\<open>main\<close> either dies with a fatal log line or serves: the listener's address and the
  root directory the handler is registered with.
\<close>

definition Abs :: "string option \<Rightarrow> string \<Rightarrow> string option" where
  "Abs getwd path =
     (if IsAbs path then Some (Clean path)
      else (case getwd of None \<Rightarrow> None | Some wd \<Rightarrow> Some (Join [wd, path])))"

datatype outcome = Fatal string | ListenAndServe string string

definition main :: "(string \<rightharpoonup> string) \<Rightarrow> (string \<rightharpoonup> string) \<Rightarrow> string option \<Rightarrow> outcome" where
  "main args env getwd =
     (case main_config args env of
        (port, mediaDir) \<Rightarrow>
          (case Abs getwd mediaDir of
             None \<Rightarrow> Fatal ''Error getting absolute path for media directory''
           | Some absMediaDir \<Rightarrow> ListenAndServe ('':'' @ port) absMediaDir))"

section \<open>Containment, and a concrete machine\<close>

text \<open>
  The program never checks that a resolved path stays beneath the root directory. What
  "beneath" means is stated here, for cleaned paths: the path is the root itself or
  continues it after a separator.
\<close>

definition is_descendant :: "string \<Rightarrow> string \<Rightarrow> bool" where
  "is_descendant root p =
     (if root = ''/'' then HasPrefix p ''/'' else (p = root \<or> HasPrefix p (root @ ''/'')))"

text \<open>
  The examples run on a small machine: a MIME table that knows \<^verbatim>\<open>.txt\<close>, a date parser that
  knows two dates, and a file system with the file of the repository's test
  (\<^verbatim>\<open>test.txt\<close>, holding \<^verbatim>\<open>Hello World\<close>) under \<^verbatim>\<open>/srv/media\<close>, a second file whose
  modification time is the Unix epoch, a file that may not be read, a directory, and
  two files outside the root, one of them under \<^verbatim>\<open>/proc\<close>. \<open>NewRequest\<close> builds a request
  without headers, as \<^verbatim>\<open>http.NewRequest\<close> does.
\<close>

definition test_platform :: platform where
  "test_platform =
     \<lparr>TypeByExtension = (\<lambda>ext. if ext = ''.txt'' then ''text/plain; charset=utf-8'' else []),
      DetectContentType = (\<lambda>buf. ''application/octet-stream''),
      ParseTime =
        (\<lambda>s. if s = ''Thu, 01 Jan 2026 00:00:00 GMT'' then Some (Time 1767225600 0)
             else if s = ''Thu, 01 Jan 1970 00:00:00 GMT'' then Some (Time 0 0)
             else None),
      FormatTime =
        (\<lambda>t. if Unix t = 1767225600 then ''Thu, 01 Jan 2026 00:00:00 GMT''
             else ''Thu, 01 Jan 1970 00:00:00 GMT''),
      Boundary = ''3d6b6a416f9b5''\<rparr>"

definition test_world :: world where
  "test_world =
     \<lparr>files =
        (\<lambda>name.
           if name = ''/srv/media/test.txt''
             then Inr (regular_file ''Hello World'' (Time 1767225600 250000000))
           else if name = ''/srv/media/old.txt''
             then Inr (regular_file ''Hello World'' (Time 0 0))
           else if name = ''/etc/passwd''
             then Inr (regular_file ''root:x:0:0:root:/root:/bin/sh'' (Time 1767225600 0))
           else if name = ''/proc/version''
             then Inr (unseekable_file ''Linux version 6.1.0'' (Time 1767225600 0))
           else if name = ''/srv/media/album''
             then Inr (opened_directory (Time 1767225600 0))
           else if name = ''/srv/media/private.txt'' then Inl EACCES
           else Inl ENOENT),
      events = []\<rparr>"

definition NewRequest :: "string \<Rightarrow> string \<Rightarrow> Request" where
  "NewRequest meth path = \<lparr>Method = meth, URL_Path = path, Header = Map.empty\<rparr>"

section \<open>Facts about content serving\<close>

lemmas handler_defs = NewMediaHandler_def os_Open_def log_Printf_def file_Close_def

lemma test_paths:
  "Join [''/srv/media'', TrimPrefix ''/media/nothing.txt'' ''/media/''] = ''/srv/media/nothing.txt''"
  "Join [''/srv/media'', TrimPrefix ''/media/private.txt'' ''/media/''] = ''/srv/media/private.txt''"
  "Join [''/srv/media'', TrimPrefix ''/media/album'' ''/media/''] = ''/srv/media/album''"
  "Join [''/srv/media'', TrimPrefix ''/media/test.txt'' ''/media/''] = ''/srv/media/test.txt''"
  "Join [''/srv/media'', TrimPrefix ''/media/old.txt'' ''/media/''] = ''/srv/media/old.txt''"
  "Join [''/srv/media'', TrimPrefix ''/media/test.txt/'' ''/media/''] = ''/srv/media/test.txt''"
  "Join [''/srv/media'', TrimPrefix ''/media/../../etc/passwd'' ''/media/''] = ''/etc/passwd''"
  "Join [''/srv/media'', TrimPrefix ''/media/../../proc/version'' ''/media/''] = ''/proc/version''"
  "Join [''/srv/media'', TrimPrefix ''/test.txt'' ''/media/''] = ''/srv/media/test.txt''"
  by (simp_all add: TrimPrefix_def HasPrefix_def Clean_def)

lemma test_extensions:
  "Ext (TrimPrefix ''/media/test.txt'' ''/media/'') = ''.txt''"
  "Ext (TrimPrefix ''/media/old.txt'' ''/media/'') = ''.txt''"
  "Ext (TrimPrefix ''/media/test.txt/'' ''/media/'') = []"
  "Ext (TrimPrefix ''/media/album'' ''/media/'') = []"
  "Ext (TrimPrefix ''/media/../../etc/passwd'' ''/media/'') = []"
  "Ext (TrimPrefix ''/media/../../proc/version'' ''/media/'') = []"
  by (simp_all add: TrimPrefix_def HasPrefix_def Ext_def)

lemmas writer_defs = Header_Set_def Header_Del_def WriteHeader_def Write_def Error_def
  serveError_def

lemmas cond_defs = checkIfMatch_def checkIfUnmodifiedSince_def checkIfNoneMatch_def
  checkIfModifiedSince_def checkIfRange_def is_GET_or_HEAD_def Header_Get_def

lemmas time_defs = isZeroTime_def IsZero_def unixEpochTime_def Truncate_Second_def Compare_le_def

lemmas range_defs = parseRange_def parseRange_spec_def TrimString_def isASCIISpace_def Cut_def
  ParseInt_def HasPrefix_def sumRangesSize_def contentRange_def FormatInt_def FormatUint.simps

lemmas file_defs = regular_file_def opened_directory_def unseekable_file_def

lemmas serve_defs = ServeContent_def serveContent_def serveContent_ranges_def
  serveContent_send_def serveContent_finish_def sizeFunc_def setLastModified_def
  checkPreconditions_def writeNotModified_def

lemma checkPreconditions_cases:
  "checkPreconditions pf w r modtime = (w', fin, rangeReq) \<Longrightarrow>
     (fin \<and> w' = WriteHeader w 412) \<or> (fin \<and> w' = writeNotModified w) \<or> (\<not> fin \<and> w' = w)"
  by (auto simp: checkPreconditions_def Let_def split: if_splits condResult.splits)

lemma checkPreconditions_plain:
  assumes "Header r ''If-Match'' = None" "Header r ''If-Unmodified-Since'' = None"
    "Header r ''If-None-Match'' = None" "Header r ''If-Modified-Since'' = None"
    "Header r ''If-Range'' = None"
  shows "checkPreconditions pf w r modtime = (w, False, Header_Get (Header r) ''Range'')"
  using assms by (simp add: checkPreconditions_def cond_defs Let_def)

lemma checkPreconditions_not_modified:
  assumes "Method r = ''GET''"
    "Header r ''If-Match'' = None" "Header r ''If-Unmodified-Since'' = None"
    "Header r ''If-None-Match'' = None"
    "Header r ''If-Modified-Since'' = Some ims" "ims \<noteq> []"
    "ParseTime pf ims = Some t" "Compare_le (Truncate_Second modtime) t"
    "\<not> isZeroTime modtime"
  shows "checkPreconditions pf w r modtime = (writeNotModified w, True, [])"
  using assms by (simp add: checkPreconditions_def cond_defs Let_def)

lemma serveContent_done:
  assumes "checkPreconditions pf (setLastModified pf w modtime) r modtime = (w2, True, rangeReq)"
  shows "serveContent pf w r name modtime content = w2"
  unfolding serveContent_def Let_def assms prod.case if_True by (rule refl)

lemma serveContent_typed:
  assumes pre: "checkPreconditions pf (setLastModified pf w modtime) r modtime
      = (setLastModified pf w modtime, False, rangeReq)"
    and ctype: "HeaderMap (setLastModified pf w modtime) ''Content-Type'' = Some ctype"
  shows "serveContent pf w r name modtime content =
      serveContent_ranges pf (setLastModified pf w modtime) r ctype content rangeReq"
  unfolding serveContent_def Let_def pre prod.case if_False ctype option.case by (rule refl)

lemma Code_writeNotModified: "\<not> wroteHeader w \<Longrightarrow> Code (writeNotModified w) = 304"
  by (simp add: writeNotModified_def writer_defs Let_def)

lemma Body_writeNotModified: "Body (writeNotModified w) = Body w"
  by (simp add: writeNotModified_def writer_defs Let_def)


lemma Code_serveError: "\<not> wroteHeader w \<Longrightarrow> Code (serveError w msg code) = code"
  by (simp add: writer_defs Let_def)

lemma serveContent_finish_simps:
  "\<not> wroteHeader w \<Longrightarrow> Code (serveContent_finish w r ranged code sendSize sendContent) = code"
  "HeaderMap (serveContent_finish w r ranged code sendSize sendContent) ''Content-Type''
     = HeaderMap w ''Content-Type''"
  by (simp_all add: serveContent_finish_def writer_defs Let_def)

lemma setLastModified_simps:
  "wroteHeader (setLastModified pf w modtime) = wroteHeader w"
  "Body (setLastModified pf w modtime) = Body w"
  "HeaderMap (setLastModified pf w modtime) ''Content-Type'' = HeaderMap w ''Content-Type''"
  "HeaderMap (setLastModified pf w modtime) ''Content-Encoding'' = HeaderMap w ''Content-Encoding''"
  by (simp_all add: setLastModified_def writer_defs)

lemma Header_Set_simps:
  "wroteHeader (Header_Set w k v) = wroteHeader w"
  "Body (Header_Set w k v) = Body w"
  "HeaderMap (Header_Set w k v) = (HeaderMap w)(k \<mapsto> v)"
  by (simp_all add: Header_Set_def)

lemma NewRecorder_simps:
  "wroteHeader NewRecorder = False" "Body NewRecorder = []" "HeaderMap NewRecorder = Map.empty"
  by (simp_all add: NewRecorder_def)


lemma Content_Type_serveContent_send:
  assumes "\<not> wroteHeader w"
    and "Code (serveContent_send pf w r ctype content sz ranges) = 200"
  shows "HeaderMap (serveContent_send pf w r ctype content sz ranges) ''Content-Type''
       = HeaderMap w ''Content-Type''"
  using assms
  by (auto simp: serveContent_send_def serveContent_finish_simps Header_Set_simps
      Code_serveError split: list.splits sum.splits)


lemma Content_Type_serveContent_ranges:
  assumes fresh: "\<not> wroteHeader w"
    and ok: "Code (serveContent_ranges pf w r ctype content rangeReq) = 200"
  shows "HeaderMap (serveContent_ranges pf w r ctype content rangeReq) ''Content-Type''
       = HeaderMap w ''Content-Type''"
proof -
  have fresh': "\<not> wroteHeader (Header_Set w k v)" for k v
    using fresh by (simp add: Header_Set_simps)
  show ?thesis
    using ok Content_Type_serveContent_send [OF fresh, of pf r ctype content]
    unfolding serveContent_ranges_def
    by (auto simp: Code_serveError [OF fresh] Code_serveError [OF fresh']
        split: sum.splits rangeError.splits if_splits)
qed


lemma Content_Type_serveContent:
  assumes fresh0: "\<not> wroteHeader w" and typed: "HeaderMap w ''Content-Type'' = Some c"
    and ok: "Code (serveContent pf w r name modtime content) = 200"
  shows "HeaderMap (serveContent pf w r name modtime content) ''Content-Type'' = Some c"
proof -
  let ?w1 = "setLastModified pf w modtime"
  have fresh: "\<not> wroteHeader ?w1" and typed1: "HeaderMap ?w1 ''Content-Type'' = Some c"
    using fresh0 typed by (simp_all add: setLastModified_simps)
  obtain w2 fin rangeReq where pre: "checkPreconditions pf ?w1 r modtime = (w2, fin, rangeReq)"
    by (cases "checkPreconditions pf ?w1 r modtime") auto
  from checkPreconditions_cases [OF pre]
  consider (failed) "fin" "w2 = WriteHeader ?w1 412"
    | (notmod) "fin" "w2 = writeNotModified ?w1"
    | (go) "\<not> fin" "w2 = ?w1"
    by blast
  then show ?thesis
  proof cases
    case failed
    with fresh pre ok show ?thesis
      by (simp add: serveContent_def Let_def WriteHeader_def)
  next
    case notmod
    with fresh pre ok show ?thesis
      by (simp add: serveContent_def Let_def Code_writeNotModified)
  next
    case go
    with pre have pre': "checkPreconditions pf ?w1 r modtime = (?w1, False, rangeReq)"
      by simp
    note eq = serveContent_typed [OF pre' typed1, of name content]
    show ?thesis
      using ok Content_Type_serveContent_ranges [OF fresh, of pf r c content rangeReq] typed1
      unfolding eq by simp
  qed
qed

section \<open>Properties of the handler\<close>

text \<open>
  C1. For every request, the path the handler resolves, logs and opens is
  \<^verbatim>\<open>Join(root, TrimPrefix(urlPath, "/media/"))\<close>: one invocation adds to the trace the log
  line for that path, the attempt to open it and, when the open succeeded, its close.
\<close>

theorem C1_resolved_target:
  "events (snd (NewMediaHandler pf mediaDir w r wd)) =
     events wd
       @ [ev_log (''Request for file: '' @ Join [mediaDir, TrimPrefix (URL_Path r) ''/media/'']),
          ev_open (Join [mediaDir, TrimPrefix (URL_Path r) ''/media/''])]
       @ (case files wd (Join [mediaDir, TrimPrefix (URL_Path r) ''/media/'']) of
            Inl err \<Rightarrow> []
          | Inr file \<Rightarrow> [ev_close (Join [mediaDir, TrimPrefix (URL_Path r) ''/media/''])])"
  by (simp add: handler_defs Let_def split: sum.split)

text \<open>
  C2, as amended. Whenever the resolved path fails to open, whatever the error (the file
  is missing, permission is denied, or anything else), the response to a fresh writer is
  404 Not Found with the standard not-found message as its whole body.
\<close>

theorem C2_open_failure_is_404:
  assumes "files wd (Join [mediaDir, TrimPrefix (URL_Path r) ''/media/'']) = Inl err"
  shows "fst (NewMediaHandler pf mediaDir NewRecorder r wd) =
           \<lparr>Code = 404,
            HeaderMap = [''Content-Type'' \<mapsto> ''text/plain; charset=utf-8'',
                         ''X-Content-Type-Options'' \<mapsto> ''nosniff''],
            Body = ''404 page not found'' @ [CHR 0x0A],
            wroteHeader = True\<rparr>"
  using assms
  by (simp add: handler_defs Let_def NotFound_def Error_def Write_def WriteHeader_def
      Header_Set_def Header_Del_def NewRecorder_def)

theorem C2_open_failure_is_404_witness:
  "(files test_world (Join [''/srv/media'', TrimPrefix ''/media/nothing.txt'' ''/media/''])
        = Inl ENOENT
      \<and> Code (fst (NewMediaHandler test_platform ''/srv/media'' NewRecorder
                 (NewRequest ''GET'' ''/media/nothing.txt'') test_world)) = 404)
   \<and> (files test_world (Join [''/srv/media'', TrimPrefix ''/media/private.txt'' ''/media/''])
        = Inl EACCES
      \<and> Code (fst (NewMediaHandler test_platform ''/srv/media'' NewRecorder
                 (NewRequest ''GET'' ''/media/private.txt'') test_world)) = 404
      \<and> Body (fst (NewMediaHandler test_platform ''/srv/media'' NewRecorder
                 (NewRequest ''GET'' ''/media/private.txt'') test_world))
          = ''404 page not found'' @ [CHR 0x0A])"
proof -
  have a: "files test_world
      (Join [''/srv/media'',
         TrimPrefix (URL_Path (NewRequest ''GET'' ''/media/nothing.txt'')) ''/media/''])
      = Inl ENOENT"
    by (simp add: NewRequest_def test_paths test_world_def del: Join.simps)
  have b: "files test_world
      (Join [''/srv/media'',
         TrimPrefix (URL_Path (NewRequest ''GET'' ''/media/private.txt'')) ''/media/''])
      = Inl EACCES"
    by (simp add: NewRequest_def test_paths test_world_def del: Join.simps)
  show ?thesis
    using a b
      C2_open_failure_is_404 [OF a, of test_platform]
      C2_open_failure_is_404 [OF b, of test_platform]
    by (simp add: NewRequest_def del: Join.simps)
qed

text \<open>
  C2, as stated, fails in its third case. A path that resolves to a directory does not
  fail to open: the directory \<^verbatim>\<open>/srv/media/album\<close> is opened, handed to the content-serving
  routine, and answered with status 200, the offset of the directory's end as
  \<^verbatim>\<open>Content-Length\<close>, and no body.
\<close>

theorem C2_counterexample:
  "files test_world (Join [''/srv/media'', TrimPrefix ''/media/album'' ''/media/''])
     = Inr (opened_directory (Time 1767225600 0))
   \<and> Code (fst (NewMediaHandler test_platform ''/srv/media'' NewRecorder
               (NewRequest ''GET'' ''/media/album'') test_world)) = 200
   \<and> HeaderMap (fst (NewMediaHandler test_platform ''/srv/media'' NewRecorder
               (NewRequest ''GET'' ''/media/album'') test_world)) ''Content-Length''
      = Some ''9223372036854775807''
   \<and> Body (fst (NewMediaHandler test_platform ''/srv/media'' NewRecorder
               (NewRequest ''GET'' ''/media/album'') test_world)) = []"
proof (intro conjI)
  show "files test_world (Join [''/srv/media'', TrimPrefix ''/media/album'' ''/media/''])
     = Inr (opened_directory (Time 1767225600 0))"
    unfolding test_paths by (simp add: test_world_def)
  show "Code (fst (NewMediaHandler test_platform ''/srv/media'' NewRecorder
               (NewRequest ''GET'' ''/media/album'') test_world)) = 200"
    by (simp add: handler_defs test_paths test_extensions NewRequest_def test_world_def
        test_platform_def NewRecorder_def serve_defs cond_defs time_defs writer_defs
        range_defs file_defs Let_def del: Join.simps)
  show "HeaderMap (fst (NewMediaHandler test_platform ''/srv/media'' NewRecorder
               (NewRequest ''GET'' ''/media/album'') test_world)) ''Content-Length''
      = Some ''9223372036854775807''"
    by (simp add: handler_defs test_paths test_extensions NewRequest_def test_world_def
        test_platform_def NewRecorder_def serve_defs cond_defs time_defs writer_defs
        range_defs file_defs Let_def del: Join.simps)
  show "Body (fst (NewMediaHandler test_platform ''/srv/media'' NewRecorder
               (NewRequest ''GET'' ''/media/album'') test_world)) = []"
    by (simp add: handler_defs test_paths test_extensions NewRequest_def test_world_def
        test_platform_def NewRecorder_def serve_defs cond_defs time_defs writer_defs
        range_defs file_defs Let_def del: Join.simps)
qed

text \<open>
  C3. There is a request path with \<^verbatim>\<open>..\<close> segments whose resolved target is not beneath the
  root: under the root \<^verbatim>\<open>/srv/media\<close> it resolves to \<^verbatim>\<open>/etc/passwd\<close>, and the handler, which
  checks nothing, hands that file to the content-serving routine.
\<close>

theorem C3_traversal_escapes_root:
  "\<exists>path. ''..'' \<in> set (Split path CHR ''/'')
     \<and> Join [''/srv/media'', TrimPrefix path ''/media/''] = ''/etc/passwd''
     \<and> \<not> is_descendant ''/srv/media'' (Join [''/srv/media'', TrimPrefix path ''/media/''])
     \<and> fst (NewMediaHandler test_platform ''/srv/media'' NewRecorder (NewRequest ''GET'' path)
              test_world)
         = ServeContent test_platform
             (Header_Set NewRecorder ''Content-Type'' ''application/octet-stream'')
             (NewRequest ''GET'' path) (TrimPrefix path ''/media/'')
             (Time 1767225600 0)
             (regular_file ''root:x:0:0:root:/root:/bin/sh'' (Time 1767225600 0))"
proof (intro exI [of _ "''/media/../../etc/passwd''"] conjI)
  show "''..'' \<in> set (Split ''/media/../../etc/passwd'' CHR ''/'')"
    by simp
  show "Join [''/srv/media'', TrimPrefix ''/media/../../etc/passwd'' ''/media/''] = ''/etc/passwd''"
    by (rule test_paths)
  show "\<not> is_descendant ''/srv/media''
          (Join [''/srv/media'', TrimPrefix ''/media/../../etc/passwd'' ''/media/''])"
    unfolding test_paths by (simp add: is_descendant_def HasPrefix_def)
  show "fst (NewMediaHandler test_platform ''/srv/media'' NewRecorder
           (NewRequest ''GET'' ''/media/../../etc/passwd'') test_world)
         = ServeContent test_platform
             (Header_Set NewRecorder ''Content-Type'' ''application/octet-stream'')
             (NewRequest ''GET'' ''/media/../../etc/passwd'')
             (TrimPrefix ''/media/../../etc/passwd'' ''/media/'')
             (Time 1767225600 0)
             (regular_file ''root:x:0:0:root:/root:/bin/sh'' (Time 1767225600 0))"
    by (simp add: handler_defs Let_def NewRequest_def test_paths test_extensions test_world_def
        test_platform_def regular_file_def del: Join.simps)
qed

text \<open>
  C4, as amended. For every successfully opened file, the handler derives the MIME type
  from the extension of the request's file name (the URL path with the prefix stripped,
  which is not always the extension of the file it opened) through the extension-to-type
  mapping, defaults to \<^verbatim>\<open>application/octet-stream\<close> when the mapping has no type for it,
  and sets \<^verbatim>\<open>Content-Type\<close> to that type before it hands the file to the content-serving
  routine; every reply with status 200 carries it.
\<close>

theorem C4_content_type_from_request_extension:
  assumes "files wd (Join [mediaDir, TrimPrefix (URL_Path r) ''/media/'']) = Inr file"
  shows "fst (NewMediaHandler pf mediaDir w r wd) =
      ServeContent pf
        (Header_Set w ''Content-Type''
           (if TypeByExtension pf (Ext (TrimPrefix (URL_Path r) ''/media/'')) = []
            then ''application/octet-stream''
            else TypeByExtension pf (Ext (TrimPrefix (URL_Path r) ''/media/''))))
        r (TrimPrefix (URL_Path r) ''/media/'') (ModTime file) file
    \<and> (Code (fst (NewMediaHandler pf mediaDir NewRecorder r wd)) = 200 \<longrightarrow>
         HeaderMap (fst (NewMediaHandler pf mediaDir NewRecorder r wd)) ''Content-Type'' =
           Some (if TypeByExtension pf (Ext (TrimPrefix (URL_Path r) ''/media/'')) = []
                 then ''application/octet-stream''
                 else TypeByExtension pf (Ext (TrimPrefix (URL_Path r) ''/media/''))))"
proof -
  let ?mime = "if TypeByExtension pf (Ext (TrimPrefix (URL_Path r) ''/media/'')) = []
     then ''application/octet-stream''
     else TypeByExtension pf (Ext (TrimPrefix (URL_Path r) ''/media/''))"
  have delegate: "fst (NewMediaHandler pf mediaDir w r wd) =
      ServeContent pf (Header_Set w ''Content-Type'' ?mime) r
        (TrimPrefix (URL_Path r) ''/media/'') (ModTime file) file" for w
    using assms by (simp add: handler_defs Let_def del: Join.simps)
  have fresh: "\<not> wroteHeader (Header_Set NewRecorder ''Content-Type'' ?mime)"
    and typed: "HeaderMap (Header_Set NewRecorder ''Content-Type'' ?mime) ''Content-Type''
      = Some ?mime"
    by (simp_all add: Header_Set_simps NewRecorder_simps)
  show ?thesis
    using delegate Content_Type_serveContent [OF fresh typed]
    by (simp add: ServeContent_def)
qed

theorem C4_content_type_from_request_extension_witness:
  "files test_world (Join [''/srv/media'', TrimPrefix ''/media/test.txt'' ''/media/''])
     = Inr (regular_file ''Hello World'' (Time 1767225600 250000000))
   \<and> Code (fst (NewMediaHandler test_platform ''/srv/media'' NewRecorder
               (NewRequest ''GET'' ''/media/test.txt'') test_world)) = 200
   \<and> HeaderMap (fst (NewMediaHandler test_platform ''/srv/media'' NewRecorder
               (NewRequest ''GET'' ''/media/test.txt'') test_world)) ''Content-Type''
      = Some ''text/plain; charset=utf-8''"
proof -
  have opened: "files test_world
      (Join [''/srv/media'', TrimPrefix (URL_Path (NewRequest ''GET'' ''/media/test.txt'')) ''/media/''])
      = Inr (regular_file ''Hello World'' (Time 1767225600 250000000))"
    by (simp add: NewRequest_def test_paths test_world_def del: Join.simps)
  have ok: "Code (fst (NewMediaHandler test_platform ''/srv/media'' NewRecorder
               (NewRequest ''GET'' ''/media/test.txt'') test_world)) = 200"
    by (simp add: handler_defs test_paths test_extensions NewRequest_def test_world_def
        test_platform_def NewRecorder_def serve_defs cond_defs time_defs writer_defs
        range_defs file_defs Let_def del: Join.simps)
  have mime: "(if TypeByExtension test_platform
          (Ext (TrimPrefix (URL_Path (NewRequest ''GET'' ''/media/test.txt'')) ''/media/'')) = []
        then ''application/octet-stream''
        else TypeByExtension test_platform
          (Ext (TrimPrefix (URL_Path (NewRequest ''GET'' ''/media/test.txt'')) ''/media/'')))
      = ''text/plain; charset=utf-8''"
    by (simp add: NewRequest_def test_extensions test_platform_def)
  note typed =
    C4_content_type_from_request_extension
      [OF opened, of test_platform NewRecorder, THEN conjunct2, THEN mp, OF ok]
  show ?thesis
    using opened ok typed [unfolded mime]
    by (simp add: NewRequest_def del: Join.simps)
qed

text \<open>
  C4, as stated, fails: the request path \<^verbatim>\<open>/media/test.txt/\<close> opens the file
  \<^verbatim>\<open>/srv/media/test.txt\<close>, whose extension \<^verbatim>\<open>.txt\<close> the mapping knows, and the file is
  served as \<^verbatim>\<open>application/octet-stream\<close>, because the request's file name ends in a
  separator and so has no extension.
\<close>

theorem C4_counterexample:
  "files test_world (Join [''/srv/media'', TrimPrefix ''/media/test.txt/'' ''/media/''])
     = Inr (regular_file ''Hello World'' (Time 1767225600 250000000))
   \<and> Ext (Join [''/srv/media'', TrimPrefix ''/media/test.txt/'' ''/media/'']) = ''.txt''
   \<and> TypeByExtension test_platform ''.txt'' = ''text/plain; charset=utf-8''
   \<and> Code (fst (NewMediaHandler test_platform ''/srv/media'' NewRecorder
               (NewRequest ''GET'' ''/media/test.txt/'') test_world)) = 200
   \<and> Body (fst (NewMediaHandler test_platform ''/srv/media'' NewRecorder
               (NewRequest ''GET'' ''/media/test.txt/'') test_world)) = ''Hello World''
   \<and> HeaderMap (fst (NewMediaHandler test_platform ''/srv/media'' NewRecorder
               (NewRequest ''GET'' ''/media/test.txt/'') test_world)) ''Content-Type''
      = Some ''application/octet-stream''"
proof -
  have reply: "fst (NewMediaHandler test_platform ''/srv/media'' NewRecorder
               (NewRequest ''GET'' ''/media/test.txt/'') test_world) =
      \<lparr>Code = 200,
       HeaderMap = [''Content-Type'' \<mapsto> ''application/octet-stream'',
                    ''Last-Modified'' \<mapsto> ''Thu, 01 Jan 2026 00:00:00 GMT'',
                    ''Accept-Ranges'' \<mapsto> ''bytes'', ''Content-Length'' \<mapsto> ''11''],
       Body = ''Hello World'', wroteHeader = True\<rparr>"
    by (simp add: handler_defs test_paths test_extensions NewRequest_def test_world_def
        test_platform_def NewRecorder_def serve_defs cond_defs time_defs writer_defs
        range_defs file_defs Let_def del: Join.simps)
  show ?thesis
    unfolding reply test_paths
    by (simp add: test_world_def test_platform_def Ext_def)
qed

text \<open>
  C5, as amended. A GET request that carries \<^verbatim>\<open>Range: bytes=0-4\<close> and no conditional header
  (\<^verbatim>\<open>If-Match\<close>, \<^verbatim>\<open>If-Unmodified-Since\<close>, \<^verbatim>\<open>If-None-Match\<close>, \<^verbatim>\<open>If-Modified-Since\<close>,
  \<^verbatim>\<open>If-Range\<close>), for an existing file that holds the eleven bytes \<^verbatim>\<open>Hello World\<close> and on
  which seeking works, is answered with status 206, the body \<^verbatim>\<open>Hello\<close> and the header
  \<^verbatim>\<open>Content-Range: bytes 0-4/11\<close>.
\<close>

theorem C5_range_request:
  assumes "Method r = ''GET''"
    and "Header r ''If-Match'' = None" and "Header r ''If-Unmodified-Since'' = None"
    and "Header r ''If-None-Match'' = None" and "Header r ''If-Modified-Since'' = None"
    and "Header r ''If-Range'' = None"
    and "Header r ''Range'' = Some ''bytes=0-4''"
    and "files wd (Join [mediaDir, TrimPrefix (URL_Path r) ''/media/'']) = Inr file"
    and "contents file = ''Hello World''"
    and "Seek file 0 SeekEnd = Inr 11" and "Seek file 0 SeekStart = Inr 0"
  shows "Code (fst (NewMediaHandler pf mediaDir NewRecorder r wd)) = 206
    \<and> Body (fst (NewMediaHandler pf mediaDir NewRecorder r wd)) = ''Hello''
    \<and> HeaderMap (fst (NewMediaHandler pf mediaDir NewRecorder r wd)) ''Content-Range''
        = Some ''bytes 0-4/11''"
proof -
  let ?mime = "if TypeByExtension pf (Ext (TrimPrefix (URL_Path r) ''/media/'')) = []
     then ''application/octet-stream''
     else TypeByExtension pf (Ext (TrimPrefix (URL_Path r) ''/media/''))"
  let ?w = "Header_Set NewRecorder ''Content-Type'' ?mime"
  let ?w1 = "setLastModified pf ?w (ModTime file)"
  have delegate: "fst (NewMediaHandler pf mediaDir NewRecorder r wd) =
      serveContent pf ?w r (TrimPrefix (URL_Path r) ''/media/'') (ModTime file) file"
    using assms(8) by (simp add: handler_defs ServeContent_def Let_def del: Join.simps)
  have pre: "checkPreconditions pf ?w1 r (ModTime file) = (?w1, False, ''bytes=0-4'')"
    using checkPreconditions_plain [OF assms(2-6)] assms(7) by (simp add: Header_Get_def)
  have typed: "HeaderMap ?w1 ''Content-Type'' = Some ?mime"
    by (simp add: setLastModified_simps Header_Set_simps)
  have sized: "sizeFunc file = Inr 11"
    using assms(10,11) by (simp add: sizeFunc_def)
  have ranges: "parseRange ''bytes=0-4'' 11 = Inr [\<lparr>start = 0, length_r = 5\<rparr>]"
    by (simp add: range_defs)
  have plain: "Body ?w1 = []" "\<not> wroteHeader ?w1"
    by (simp_all add: setLastModified_simps Header_Set_simps NewRecorder_simps)
  have send: "serveContent pf ?w r (TrimPrefix (URL_Path r) ''/media/'') (ModTime file) file
      = serveContent_send pf ?w1 r ?mime file 11 [\<lparr>start = 0, length_r = 5\<rparr>]"
    unfolding serveContent_typed [OF pre typed] serveContent_ranges_def sized
    by (simp add: ranges sumRangesSize_def)
  show ?thesis
    unfolding delegate send
    using plain assms(1,9,11)
    by (simp add: serveContent_send_def serveContent_finish_def writer_defs contentRange_def
        FormatInt_def FormatUint.simps Let_def)
qed

theorem C5_range_request_witness:
  "files test_world (Join [''/srv/media'', TrimPrefix ''/media/test.txt'' ''/media/''])
     = Inr (regular_file ''Hello World'' (Time 1767225600 250000000))
   \<and> contents (regular_file ''Hello World'' (Time 1767225600 250000000)) = ''Hello World''
   \<and> Seek (regular_file ''Hello World'' (Time 1767225600 250000000)) 0 SeekEnd = Inr 11
   \<and> Seek (regular_file ''Hello World'' (Time 1767225600 250000000)) 0 SeekStart = Inr 0
   \<and> Code (fst (NewMediaHandler test_platform ''/srv/media'' NewRecorder
        ((NewRequest ''GET'' ''/media/test.txt'')\<lparr>Header := [''Range'' \<mapsto> ''bytes=0-4'']\<rparr>)
        test_world)) = 206
   \<and> Body (fst (NewMediaHandler test_platform ''/srv/media'' NewRecorder
        ((NewRequest ''GET'' ''/media/test.txt'')\<lparr>Header := [''Range'' \<mapsto> ''bytes=0-4'']\<rparr>)
        test_world)) = ''Hello''
   \<and> HeaderMap (fst (NewMediaHandler test_platform ''/srv/media'' NewRecorder
        ((NewRequest ''GET'' ''/media/test.txt'')\<lparr>Header := [''Range'' \<mapsto> ''bytes=0-4'']\<rparr>)
        test_world)) ''Content-Range'' = Some ''bytes 0-4/11''"
proof -
  let ?r = "(NewRequest ''GET'' ''/media/test.txt'')\<lparr>Header := [''Range'' \<mapsto> ''bytes=0-4'']\<rparr>"
  let ?f = "regular_file ''Hello World'' (Time 1767225600 250000000)"
  have opened: "files test_world (Join [''/srv/media'', TrimPrefix (URL_Path ?r) ''/media/''])
      = Inr ?f"
    by (simp add: NewRequest_def test_paths test_world_def del: Join.simps)
  have request: "Method ?r = ''GET''" "Header ?r ''If-Match'' = None"
    "Header ?r ''If-Unmodified-Since'' = None" "Header ?r ''If-None-Match'' = None"
    "Header ?r ''If-Modified-Since'' = None" "Header ?r ''If-Range'' = None"
    "Header ?r ''Range'' = Some ''bytes=0-4''"
    by (simp_all add: NewRequest_def)
  have regular: "contents ?f = ''Hello World''" "Seek ?f 0 SeekEnd = Inr 11"
    "Seek ?f 0 SeekStart = Inr 0"
    by (simp_all add: regular_file_def)
  from C5_range_request [OF request opened regular, of test_platform] opened regular
  show ?thesis
    by (simp add: NewRequest_def del: Join.simps)
qed

text \<open>
  C5, as stated, fails when the request carries a conditional header as well. With an
  \<^verbatim>\<open>If-Range\<close> date that is not the file's modification time the \<^verbatim>\<open>Range\<close> header is
  ignored and the whole file is sent with status 200; with \<^verbatim>\<open>If-None-Match: *\<close> the reply
  is 304 and has no body.
\<close>

theorem C5_counterexample:
  "Code (fst (NewMediaHandler test_platform ''/srv/media'' NewRecorder
        ((NewRequest ''GET'' ''/media/test.txt'')
           \<lparr>Header := [''Range'' \<mapsto> ''bytes=0-4'',
                        ''If-Range'' \<mapsto> ''Thu, 01 Jan 1970 00:00:00 GMT'']\<rparr>)
        test_world)) = 200
   \<and> Body (fst (NewMediaHandler test_platform ''/srv/media'' NewRecorder
        ((NewRequest ''GET'' ''/media/test.txt'')
           \<lparr>Header := [''Range'' \<mapsto> ''bytes=0-4'',
                        ''If-Range'' \<mapsto> ''Thu, 01 Jan 1970 00:00:00 GMT'']\<rparr>)
        test_world)) = ''Hello World''
   \<and> Code (fst (NewMediaHandler test_platform ''/srv/media'' NewRecorder
        ((NewRequest ''GET'' ''/media/test.txt'')
           \<lparr>Header := [''Range'' \<mapsto> ''bytes=0-4'', ''If-None-Match'' \<mapsto> ''*'']\<rparr>)
        test_world)) = 304
   \<and> Body (fst (NewMediaHandler test_platform ''/srv/media'' NewRecorder
        ((NewRequest ''GET'' ''/media/test.txt'')
           \<lparr>Header := [''Range'' \<mapsto> ''bytes=0-4'', ''If-None-Match'' \<mapsto> ''*'']\<rparr>)
        test_world)) = []"
proof (intro conjI)
  have stale: "scanETag ''Thu, 01 Jan 1970 00:00:00 GMT'' = ([], [])"
    by (simp add: scanETag_def TrimString_def isASCIISpace_def HasPrefix_def)
  show "Code (fst (NewMediaHandler test_platform ''/srv/media'' NewRecorder
        ((NewRequest ''GET'' ''/media/test.txt'')
           \<lparr>Header := [''Range'' \<mapsto> ''bytes=0-4'',
                        ''If-Range'' \<mapsto> ''Thu, 01 Jan 1970 00:00:00 GMT'']\<rparr>)
        test_world)) = 200"
    by (simp add: handler_defs test_paths test_extensions NewRequest_def test_world_def
        test_platform_def NewRecorder_def serve_defs cond_defs time_defs writer_defs
        range_defs file_defs stale Let_def del: Join.simps)
  show "Body (fst (NewMediaHandler test_platform ''/srv/media'' NewRecorder
        ((NewRequest ''GET'' ''/media/test.txt'')
           \<lparr>Header := [''Range'' \<mapsto> ''bytes=0-4'',
                        ''If-Range'' \<mapsto> ''Thu, 01 Jan 1970 00:00:00 GMT'']\<rparr>)
        test_world)) = ''Hello World''"
    by (simp add: handler_defs test_paths test_extensions NewRequest_def test_world_def
        test_platform_def NewRecorder_def serve_defs cond_defs time_defs writer_defs
        range_defs file_defs stale Let_def del: Join.simps)
  have star: "checkIfNoneMatch_loop [] ''*'' = condFalse"
    by (simp add: checkIfNoneMatch_loop.simps TrimString_def isASCIISpace_def)
  show "Code (fst (NewMediaHandler test_platform ''/srv/media'' NewRecorder
        ((NewRequest ''GET'' ''/media/test.txt'')
           \<lparr>Header := [''Range'' \<mapsto> ''bytes=0-4'', ''If-None-Match'' \<mapsto> ''*'']\<rparr>)
        test_world)) = 304"
    by (simp add: handler_defs test_paths test_extensions NewRequest_def test_world_def
        test_platform_def NewRecorder_def serve_defs cond_defs time_defs writer_defs
        file_defs star Let_def del: Join.simps)
  show "Body (fst (NewMediaHandler test_platform ''/srv/media'' NewRecorder
        ((NewRequest ''GET'' ''/media/test.txt'')
           \<lparr>Header := [''Range'' \<mapsto> ''bytes=0-4'', ''If-None-Match'' \<mapsto> ''*'']\<rparr>)
        test_world)) = []"
    by (simp add: handler_defs test_paths test_extensions NewRequest_def test_world_def
        test_platform_def NewRecorder_def serve_defs cond_defs time_defs writer_defs
        file_defs star Let_def del: Join.simps)
qed

text \<open>
  C6, as amended. A GET request for an existing file whose \<^verbatim>\<open>If-Modified-Since\<close> header
  is the file's modification time (to the second), with no \<^verbatim>\<open>If-Match\<close>,
  \<^verbatim>\<open>If-Unmodified-Since\<close> or \<^verbatim>\<open>If-None-Match\<close> header, is answered with status 304 and
  an empty body, provided the modification time is neither Go's zero time nor the Unix
  epoch.
\<close>

theorem C6_not_modified:
  assumes "Method r = ''GET''"
    and "Header r ''If-Match'' = None" and "Header r ''If-Unmodified-Since'' = None"
    and "Header r ''If-None-Match'' = None"
    and "Header r ''If-Modified-Since'' = Some ims" and "ims \<noteq> []"
    and "ParseTime pf ims = Some (Truncate_Second (ModTime file))"
    and "\<not> isZeroTime (ModTime file)"
    and "files wd (Join [mediaDir, TrimPrefix (URL_Path r) ''/media/'']) = Inr file"
  shows "Code (fst (NewMediaHandler pf mediaDir NewRecorder r wd)) = 304
    \<and> Body (fst (NewMediaHandler pf mediaDir NewRecorder r wd)) = []"
proof -
  let ?mime = "if TypeByExtension pf (Ext (TrimPrefix (URL_Path r) ''/media/'')) = []
     then ''application/octet-stream''
     else TypeByExtension pf (Ext (TrimPrefix (URL_Path r) ''/media/''))"
  let ?w = "Header_Set NewRecorder ''Content-Type'' ?mime"
  let ?w1 = "setLastModified pf ?w (ModTime file)"
  have delegate: "fst (NewMediaHandler pf mediaDir NewRecorder r wd) =
      serveContent pf ?w r (TrimPrefix (URL_Path r) ''/media/'') (ModTime file) file"
    using assms(9) by (simp add: handler_defs ServeContent_def Let_def del: Join.simps)
  have same: "Compare_le (Truncate_Second (ModTime file)) (Truncate_Second (ModTime file))"
    by (simp add: Compare_le_def)
  have pre: "checkPreconditions pf ?w1 r (ModTime file) = (writeNotModified ?w1, True, [])"
    by (rule checkPreconditions_not_modified [OF assms(1-7) same assms(8)])
  have plain: "Body ?w1 = []" "\<not> wroteHeader ?w1"
    by (simp_all add: setLastModified_simps Header_Set_simps NewRecorder_simps)
  show ?thesis
    unfolding delegate serveContent_done [OF pre]
    using plain by (simp add: Code_writeNotModified Body_writeNotModified)
qed

theorem C6_not_modified_witness:
  "files test_world (Join [''/srv/media'', TrimPrefix ''/media/test.txt'' ''/media/''])
     = Inr (regular_file ''Hello World'' (Time 1767225600 250000000))
   \<and> ParseTime test_platform ''Thu, 01 Jan 2026 00:00:00 GMT''
     = Some (Truncate_Second (Time 1767225600 250000000))
   \<and> \<not> isZeroTime (Time 1767225600 250000000)
   \<and> Code (fst (NewMediaHandler test_platform ''/srv/media'' NewRecorder
        ((NewRequest ''GET'' ''/media/test.txt'')
           \<lparr>Header := [''If-Modified-Since'' \<mapsto> ''Thu, 01 Jan 2026 00:00:00 GMT'']\<rparr>)
        test_world)) = 304
   \<and> Body (fst (NewMediaHandler test_platform ''/srv/media'' NewRecorder
        ((NewRequest ''GET'' ''/media/test.txt'')
           \<lparr>Header := [''If-Modified-Since'' \<mapsto> ''Thu, 01 Jan 2026 00:00:00 GMT'']\<rparr>)
        test_world)) = []"
proof -
  let ?r = "(NewRequest ''GET'' ''/media/test.txt'')
    \<lparr>Header := [''If-Modified-Since'' \<mapsto> ''Thu, 01 Jan 2026 00:00:00 GMT'']\<rparr>"
  let ?f = "regular_file ''Hello World'' (Time 1767225600 250000000)"
  have mtime: "ModTime ?f = Time 1767225600 250000000"
    by (simp add: regular_file_def)
  have opened: "files test_world (Join [''/srv/media'', TrimPrefix (URL_Path ?r) ''/media/''])
      = Inr ?f"
    by (simp add: NewRequest_def test_paths test_world_def del: Join.simps)
  have request: "Method ?r = ''GET''" "Header ?r ''If-Match'' = None"
    "Header ?r ''If-Unmodified-Since'' = None" "Header ?r ''If-None-Match'' = None"
    "Header ?r ''If-Modified-Since'' = Some ''Thu, 01 Jan 2026 00:00:00 GMT''"
    "''Thu, 01 Jan 2026 00:00:00 GMT'' \<noteq> []"
    by (simp_all add: NewRequest_def)
  have parsed: "ParseTime test_platform ''Thu, 01 Jan 2026 00:00:00 GMT''
      = Some (Truncate_Second (ModTime ?f))"
    by (simp add: mtime test_platform_def Truncate_Second_def)
  have recent: "\<not> isZeroTime (ModTime ?f)"
    by (simp add: mtime time_defs)
  from C6_not_modified [OF request parsed recent opened] opened parsed recent
  show ?thesis
    by (simp add: NewRequest_def mtime del: Join.simps)
qed

text \<open>
  C6, as stated, fails for a file whose modification time is the Unix epoch: the
  content-serving routine takes such a time for "not known", ignores
  \<^verbatim>\<open>If-Modified-Since\<close> and sends the whole file with status 200.
\<close>

theorem C6_counterexample:
  "files test_world (Join [''/srv/media'', TrimPrefix ''/media/old.txt'' ''/media/''])
     = Inr (regular_file ''Hello World'' (Time 0 0))
   \<and> ModTime (regular_file ''Hello World'' (Time 0 0)) = Time 0 0
   \<and> ParseTime test_platform ''Thu, 01 Jan 1970 00:00:00 GMT'' = Some (Time 0 0)
   \<and> Code (fst (NewMediaHandler test_platform ''/srv/media'' NewRecorder
        ((NewRequest ''GET'' ''/media/old.txt'')
           \<lparr>Header := [''If-Modified-Since'' \<mapsto> ''Thu, 01 Jan 1970 00:00:00 GMT'']\<rparr>)
        test_world)) = 200
   \<and> Body (fst (NewMediaHandler test_platform ''/srv/media'' NewRecorder
        ((NewRequest ''GET'' ''/media/old.txt'')
           \<lparr>Header := [''If-Modified-Since'' \<mapsto> ''Thu, 01 Jan 1970 00:00:00 GMT'']\<rparr>)
        test_world)) = ''Hello World''"
proof -
  have reply: "fst (NewMediaHandler test_platform ''/srv/media'' NewRecorder
        ((NewRequest ''GET'' ''/media/old.txt'')
           \<lparr>Header := [''If-Modified-Since'' \<mapsto> ''Thu, 01 Jan 1970 00:00:00 GMT'']\<rparr>)
        test_world) =
      \<lparr>Code = 200,
       HeaderMap = [''Content-Type'' \<mapsto> ''text/plain; charset=utf-8'',
                    ''Accept-Ranges'' \<mapsto> ''bytes'', ''Content-Length'' \<mapsto> ''11''],
       Body = ''Hello World'', wroteHeader = True\<rparr>"
    by (simp add: handler_defs test_paths test_extensions NewRequest_def test_world_def
        test_platform_def NewRecorder_def serve_defs cond_defs time_defs writer_defs
        range_defs file_defs Let_def del: Join.simps)
  show ?thesis
    unfolding reply test_paths
    by (simp add: test_world_def test_platform_def regular_file_def)
qed



text \<open>
  C9. When the URL path does not begin with \<^verbatim>\<open>/media/\<close>, stripping the prefix leaves it
  unchanged and the whole path is joined onto the root. Nothing is refused before the
  open attempt: the handler logs and opens that path, and the response is decided by the
  open alone.
\<close>

theorem C9_path_without_prefix_is_joined_whole:
  assumes "\<not> HasPrefix (URL_Path r) ''/media/''"
  shows "TrimPrefix (URL_Path r) ''/media/'' = URL_Path r
    \<and> events (snd (NewMediaHandler pf mediaDir w r wd)) =
        events wd
          @ [ev_log (''Request for file: '' @ Join [mediaDir, URL_Path r]),
             ev_open (Join [mediaDir, URL_Path r])]
          @ (case files wd (Join [mediaDir, URL_Path r]) of
               Inl err \<Rightarrow> []
             | Inr file \<Rightarrow> [ev_close (Join [mediaDir, URL_Path r])])
    \<and> fst (NewMediaHandler pf mediaDir w r wd) =
        (case files wd (Join [mediaDir, URL_Path r]) of
           Inl err \<Rightarrow> NotFound w r
         | Inr file \<Rightarrow>
             ServeContent pf
               (Header_Set w ''Content-Type''
                  (if TypeByExtension pf (Ext (URL_Path r)) = [] then ''application/octet-stream''
                   else TypeByExtension pf (Ext (URL_Path r))))
               r (URL_Path r) (ModTime file) file)"
proof -
  from assms have trim: "TrimPrefix (URL_Path r) ''/media/'' = URL_Path r"
    by (simp add: TrimPrefix_def)
  show ?thesis
    by (simp add: trim handler_defs Let_def split: sum.split)
qed

theorem C9_path_without_prefix_is_joined_whole_witness:
  "\<not> HasPrefix ''/test.txt'' ''/media/''
   \<and> TrimPrefix ''/test.txt'' ''/media/'' = ''/test.txt''
   \<and> events (snd (NewMediaHandler test_platform ''/srv/media'' NewRecorder
                 (NewRequest ''GET'' ''/test.txt'') test_world))
      = [ev_log ''Request for file: /srv/media/test.txt'',
         ev_open ''/srv/media/test.txt'', ev_close ''/srv/media/test.txt'']"
proof -
  have no_prefix: "\<not> HasPrefix (URL_Path (NewRequest ''GET'' ''/test.txt'')) ''/media/''"
    by (simp add: NewRequest_def HasPrefix_def)
  have target: "Join [''/srv/media'', ''/test.txt''] = ''/srv/media/test.txt''"
    by (simp add: Clean_def)
  show ?thesis
    using no_prefix
      C9_path_without_prefix_is_joined_whole
        [OF no_prefix, of test_platform "''/srv/media''" NewRecorder test_world]
    by (simp add: NewRequest_def target test_world_def del: Join.simps)
qed

section \<open>Properties of the configuration\<close>

text \<open>
  C8, as amended. For the port and for the media directory alike, the environment
  variable takes precedence over the flag when it is set to a non-empty value; when it
  is not set, or set to the empty string, the value of the flag (or its default) is used.
\<close>

theorem C8_precedence_of_nonempty_environment:
  "main_config args env =
     ((case env ''SERVER_PORT'' of
         None \<Rightarrow> flag_String args ''port'' ''8080''
       | Some v \<Rightarrow> (if v = [] then flag_String args ''port'' ''8080'' else v)),
      (case env ''MEDIA_DIR'' of
         None \<Rightarrow> flag_String args ''mediadir'' ''./media''
       | Some v \<Rightarrow> (if v = [] then flag_String args ''mediadir'' ''./media'' else v)))"
  by (simp add: main_config_def Getenv_def Let_def split: option.split)

text \<open>
  C8, as stated, fails: with both variables present in the environment and empty, the
  values of the flags are used.
\<close>

theorem C8_counterexample:
  "[''SERVER_PORT'' \<mapsto> [], ''MEDIA_DIR'' \<mapsto> []] ''SERVER_PORT'' = Some []
   \<and> [''SERVER_PORT'' \<mapsto> [], ''MEDIA_DIR'' \<mapsto> []] ''MEDIA_DIR'' = Some []
   \<and> main_config [''port'' \<mapsto> ''9090'', ''mediadir'' \<mapsto> ''/srv/media'']
        [''SERVER_PORT'' \<mapsto> [], ''MEDIA_DIR'' \<mapsto> []] = (''9090'', ''/srv/media'')"
  by (simp add: main_config_def Getenv_def flag_String_def)

text \<open>
  C10. A variable that is set to the empty string does not override the flag: the port,
  respectively the media directory, is then the value of the flag or its default.
\<close>

theorem C10_empty_variable_does_not_override:
  "(env ''SERVER_PORT'' = Some [] \<longrightarrow>
      fst (main_config args env) = flag_String args ''port'' ''8080'')
   \<and> (env ''MEDIA_DIR'' = Some [] \<longrightarrow>
      snd (main_config args env) = flag_String args ''mediadir'' ''./media'')"
  by (simp add: main_config_def Getenv_def Let_def)

theorem C10_empty_variable_does_not_override_witness:
  "[''SERVER_PORT'' \<mapsto> [], ''MEDIA_DIR'' \<mapsto> []] ''SERVER_PORT'' = Some []
   \<and> [''SERVER_PORT'' \<mapsto> [], ''MEDIA_DIR'' \<mapsto> []] ''MEDIA_DIR'' = Some []
   \<and> fst (main_config [''port'' \<mapsto> ''9090''] [''SERVER_PORT'' \<mapsto> [], ''MEDIA_DIR'' \<mapsto> []])
       = ''9090''
   \<and> snd (main_config [''port'' \<mapsto> ''9090''] [''SERVER_PORT'' \<mapsto> [], ''MEDIA_DIR'' \<mapsto> []])
       = ''./media''"
  using C10_empty_variable_does_not_override
    [of "[''SERVER_PORT'' \<mapsto> [], ''MEDIA_DIR'' \<mapsto> []]" "[''port'' \<mapsto> ''9090'']"]
  by (simp add: flag_String_def)

end
